theory Spec2Isabelle
  imports Main
begin

section \<open>Python values and strings\<close>

text \<open>
  Python strings are modelled as \<open>string\<close>, one \<open>char\<close> per code point below 256.
  \<open>isspace\<close> is \<open>str.isspace\<close> on that range, and \<open>strip\<close> is \<open>str.strip()\<close>
  with no argument: it drops the whitespace at both ends.
\<close>

definition isspace :: "char \<Rightarrow> bool" where
  "isspace c = (of_char c \<in> set [9, 10, 11, 12, 13, 28, 29, 30, 31, 32, 133, 160 :: nat])"

definition lstrip :: "string \<Rightarrow> string" where
  "lstrip s = dropWhile isspace s"

definition rstrip :: "string \<Rightarrow> string" where
  "rstrip s = rev (dropWhile isspace (rev s))"

definition strip :: "string \<Rightarrow> string" where
  "strip s = rstrip (lstrip s)"

text \<open>A string is trimmed when neither its first nor its last character is whitespace.\<close>

definition trimmed :: "string \<Rightarrow> bool" where
  "trimmed s = (case s of [] \<Rightarrow> True | c # _ \<Rightarrow> \<not> isspace c \<and> \<not> isspace (last s))"

text \<open>
  The values that reach a prompt or a constructor: \<open>None\<close>, a string, an integer, a
  boolean. \<open>truthy\<close> is Python's truth test, \<open>py_str\<close> is \<open>str()\<close>.
\<close>

datatype pyval = PNone | PStr string | PInt int | PBool bool

fun truthy :: "pyval \<Rightarrow> bool" where
  "truthy PNone = False"
| "truthy (PStr s) = (s \<noteq> [])"
| "truthy (PInt i) = (i \<noteq> 0)"
| "truthy (PBool b) = b"

definition digit_char :: "nat \<Rightarrow> char" where
  "digit_char d = ''0123456789'' ! (d mod 10)"

fun nat_digits :: "nat \<Rightarrow> string" where
  "nat_digits n = (if n < 10 then [digit_char n] else nat_digits (n div 10) @ [digit_char (n mod 10)])"

declare nat_digits.simps [simp del]

definition int_str :: "int \<Rightarrow> string" where
  "int_str i = (if i < 0 then CHR ''-'' # nat_digits (nat (- i)) else nat_digits (nat i))"

fun py_str :: "pyval \<Rightarrow> string" where
  "py_str PNone = ''None''"
| "py_str (PStr s) = s"
| "py_str (PInt i) = int_str i"
| "py_str (PBool b) = (if b then ''True'' else ''False'')"

text \<open>
  Exceptions are values. \<open>Raised\<close> is an exception raised by a collaborator (a context
  function, the completion backend, the validator) with its message. \<open>Unmodelled\<close> is not
  a Python exception: it marks a rendering whose text is outside this model (the \<open>str()\<close>
  of a callable, of a registry, of a dictionary).
\<close>

datatype error =
    UndefinedError string
  | TypeError string
  | IndexError
  | Raised string
  | Unmodelled

section \<open>Prompt templates\<close>

text \<open>
  A template is kept in parsed form. The fragment has the constructs the three prompts of
  \<open>ai_model.py\<close> use: literal text, \<open>{{ name }}\<close>, \<open>{{ functions[i].__name__ }}\<close>,
  \<open>{% if name %} ... {% endif %}\<close>, and
  \<open>{% for (a, v) in context_fn(text).items() %} ... {% endfor %}\<close>.
\<close>

datatype expr = Var string | FunctionName nat

datatype node =
    Text string
  | Out expr
  | If string "node list"
  | ForItems string string "node list"

type_synonym template = "node list"

text \<open>
  A context function takes the input text and returns a dictionary (its items, in
  insertion order) or raises.
\<close>

type_synonym context_function = "pyval \<Rightarrow> error + (string \<times> pyval) list"

definition nl :: string where
  "nl = [CHR 0x0A]"

definition system_extract_prompt :: template where
  "system_extract_prompt =
    [Text (''The user will provide context as text that you need to parse into a structured form. '' @ nl @
           ''    - To validate your response, you must call the `''),
     Out (FunctionName 0),
     Text (''` function.'' @ nl @
           ''    - Use the provided text to extract or infer any parameters needed by `''),
     Out (FunctionName 0),
     Text (''`, including any missing data.'' @ nl @ replicate 38 CHR '' '' @ nl),
     If ''instructions''
       [Text (nl @ ''The user has provided some additional requirements for this task: ''),
        Out (Var ''instructions''),
        Text ('' '' @ nl)],
     Text (nl @ replicate 41 CHR '' '' @ nl),
     If ''context_fn''
       [Text nl,
        ForItems ''arg'' ''value'' [Out (Var ''arg''), Text '': '', Out (Var ''value'')],
        Text nl]]"

definition system_generate_prompt :: template where
  "system_generate_prompt =
    [Text (''The user will provide context as text that you need to parse to generate synthetic data.'' @ nl @
           ''    - To validate your response, you must call the `''),
     Out (FunctionName 0),
     Text (''` function.'' @ nl @
           ''    - Use the provided text to generate or invent any parameters needed by `''),
     Out (FunctionName 0),
     Text (''`, including any missing data.'' @ nl @
           ''    - It is okay to make up representative data.'' @ nl),
     If ''instructions''
       [Text ''You have been provided instructions on completing your task: '',
        Out (Var ''instructions'')],
     If ''context_fn''
       [Text (''You have been provided the following context to perform your task:'' @ nl),
        ForItems ''arg'' ''value''
          [Text ''    - '', Out (Var ''arg''), Text '': '', Out (Var ''value''), Text nl]]]"

definition user_prompt :: template where
  "user_prompt = [Text ''The text to parse: '', Out (Var ''text''), Text (nl @ ''    '')]"

section \<open>The model class and its function specification\<close>

datatype mode = Extract | Generate

text \<open>
  \<open>as_decorator\<close> binds keywords onto \<open>_messages\<close> and \<open>_functions\<close> with
  \<open>functools.partial\<close>. \<open>messages_partial\<close> holds the keywords bound onto \<open>_messages\<close>
  (the \<open>defaults\<close> keyword, the base model's field defaults, is bound too; no construct
  of the template fragment reads a dictionary, so it is not carried).
  A class is its name, its schema definition \<open>'s\<close> (the pydantic fields, kept abstract)
  and the two bindings; both are \<open>None\<close> on a class that was never decorated.
\<close>

record messages_partial =
  bound_system :: template
  bound_user :: template
  bound_context_fn :: "context_function option"
  bound_instructions :: pyval

record 's ai_class =
  cls_name :: string
  cls_fields :: 's
  cls_messages :: "messages_partial option"
  cls_functions :: "pyval option"

text \<open>
  Modelled from the spec: \<open>marvin.types.Function\<close> and \<open>FunctionRegistry\<close> are not among
  the source files. A Function Specification has a name, a description and a parameter
  schema reflecting the Schema Definition's fields; \<open>Function.from_model\<close> wraps a model
  class under the given name and description, \<open>__name__\<close> is that name, and \<open>schema()\<close>
  is the mapping with the keys \<open>name\<close>, \<open>description\<close>, \<open>parameters\<close>. The registry is
  the list of its functions, and its \<open>schema()\<close> is the list of their schemas.
\<close>

record 's Function =
  fn :: "'s ai_class"
  fn_name :: string
  fn_description :: string

record 's function_schema =
  name :: string
  description :: string
  parameters :: 's

definition from_model :: "'s ai_class \<Rightarrow> string \<Rightarrow> string \<Rightarrow> 's Function" where
  "from_model model nm descr = \<lparr>fn = model, fn_name = nm, fn_description = descr\<rparr>"

definition Function_schema :: "'s Function \<Rightarrow> 's function_schema" where
  "Function_schema f =
     \<lparr>name = fn_name f, description = fn_description f, parameters = cls_fields (fn f)\<rparr>"

definition registry_schema :: "'s Function list \<Rightarrow> 's function_schema list" where
  "registry_schema fs = map Function_schema fs"

definition description_boilerplate :: string where
  "description_boilerplate =
     ''You MUST always call this function before responding to the'' @
     '' user to ensure that your final response is formatted'' @
     '' correctly and complies with the output format'' @
     '' requirements.''"

text \<open>
  \<open>AIModel._functions(cls, *args, instructions=None, **kwargs)\<close>: the other arguments
  are ignored. The class passed to \<open>Function.from_model\<close> is a subclass of \<open>cls\<close> named
  \<open>format_response\<close> that copies the attributes of \<open>cls\<close>: the same fields and bindings.
\<close>

definition or_empty :: "pyval \<Rightarrow> string" where
  "or_empty instructions = (if truthy instructions then py_str instructions else [])"

definition functions_direct :: "'s ai_class \<Rightarrow> pyval \<Rightarrow> 's Function list" where
  "functions_direct cls instructions =
     [from_model (cls\<lparr>cls_name := ''format_response''\<rparr>) ''format_response''
        (strip (description_boilerplate @ nl @ nl @ or_empty instructions))]"

text \<open>
  \<open>cls._functions(...)\<close> as the call sites reach it: through the partial when the class
  is decorated (the bound \<open>instructions\<close> is used unless the call passes its own), and
  directly otherwise. \<open>call_kw\<close> is the \<open>instructions\<close> keyword of the call, \<open>None\<close> when
  the call passes none. \<open>instructions or ""\<close> is the empty string for a false value, and
  \<open>format\<close> inserts the \<open>str()\<close> of any other.
\<close>

definition AIModel_functions :: "'s ai_class \<Rightarrow> pyval option \<Rightarrow> 's Function list" where
  "AIModel_functions cls call_kw =
     (case call_kw of
        Some i \<Rightarrow> functions_direct cls i
      | None \<Rightarrow>
          (case cls_functions cls of
             Some i \<Rightarrow> functions_direct cls i
           | None \<Rightarrow> functions_direct cls PNone))"

text \<open>
  \<open>AIModel._function_call(cls, *args, __schema__=True, **kwargs)\<close>. Indexing an empty
  list raises \<open>IndexError\<close>.
\<close>

definition first :: "'a list \<Rightarrow> error + 'a" where
  "first xs = (case xs of [] \<Rightarrow> Inl IndexError | x # _ \<Rightarrow> Inr x)"

definition AIModel_function_call :: "'s ai_class \<Rightarrow> bool \<Rightarrow> pyval option \<Rightarrow> error + string" where
  "AIModel_function_call cls schema_form call_kw =
     (if schema_form
      then (case first (registry_schema (AIModel_functions cls call_kw)) of
              Inl e \<Rightarrow> Inl e | Inr d \<Rightarrow> Inr (name d))
      else (case first (AIModel_functions cls call_kw) of
              Inl e \<Rightarrow> Inl e | Inr f \<Rightarrow> Inr (fn_name f)))"

section \<open>Rendering\<close>

text \<open>
  What a name of the render context is bound to: a value that prints (\<open>Scalar\<close>), the
  function registry, a context function, or an object whose text is outside the model
  (\<open>Opaque\<close>: the template sources bound to \<open>system\<close> and \<open>user\<close>, the \<open>defaults\<close>
  dictionary, the \<open>loop\<close> object, the globals of the template engine).
\<close>

datatype 's jval =
    Scalar pyval
  | Registry "'s Function list"
  | Callable context_function
  | Opaque

type_synonym 's render_context = "string \<rightharpoonup> 's jval"

text \<open>
  \<open>Template(source).render(**context)\<close> with the engine's default settings, on the
  fragment. The template engine is a library outside the repository; this is its
  documented behaviour. A name that is not bound is undefined: the default \<open>Undefined\<close> object
  prints as the empty string and is false in a test, and raises \<open>UndefinedError\<close> when
  it is subscripted or called.
\<close>

definition eval_out :: "'s render_context \<Rightarrow> expr \<Rightarrow> error + string" where
  "eval_out ctx e =
     (case e of
        Var x \<Rightarrow>
          (case ctx x of
             None \<Rightarrow> Inr []
           | Some (Scalar v) \<Rightarrow> Inr (py_str v)
           | Some _ \<Rightarrow> Inl Unmodelled)
      | FunctionName i \<Rightarrow>
          (case ctx ''functions'' of
             None \<Rightarrow> Inl (UndefinedError ''functions'')
           | Some (Registry fs) \<Rightarrow>
               (if i < length fs then Inr (fn_name (fs ! i)) else Inl (UndefinedError ''__name__''))
           | Some _ \<Rightarrow> Inl Unmodelled))"

definition eval_test :: "'s render_context \<Rightarrow> string \<Rightarrow> error + bool" where
  "eval_test ctx x =
     (case ctx x of
        None \<Rightarrow> Inr False
      | Some (Scalar v) \<Rightarrow> Inr (truthy v)
      | Some (Callable f) \<Rightarrow> Inr True
      | Some _ \<Rightarrow> Inl Unmodelled)"

text \<open>\<open>context_fn(text).items()\<close>: the pairs of the dictionary the context function returns.\<close>

definition eval_items :: "'s render_context \<Rightarrow> error + (string \<times> pyval) list" where
  "eval_items ctx =
     (case ctx ''context_fn'' of
        None \<Rightarrow> Inl (UndefinedError ''context_fn'')
      | Some (Callable f) \<Rightarrow>
          (case ctx ''text'' of
             Some (Scalar t) \<Rightarrow> f t
           | _ \<Rightarrow> Inl Unmodelled)
      | Some (Scalar v) \<Rightarrow> Inl (TypeError ''object is not callable'')
      | Some _ \<Rightarrow> Inl Unmodelled)"

definition loop_scope :: "'s render_context \<Rightarrow> string \<Rightarrow> string \<Rightarrow> string \<times> pyval \<Rightarrow> 's render_context" where
  "loop_scope ctx a v kv =
     ctx(''loop'' \<mapsto> Opaque, a \<mapsto> Scalar (PStr (fst kv)), v \<mapsto> Scalar (snd kv))"

fun render_node :: "'s render_context \<Rightarrow> node \<Rightarrow> error + string"
and render_nodes :: "'s render_context \<Rightarrow> node list \<Rightarrow> error + string"
and render_loop :: "'s render_context \<Rightarrow> string \<Rightarrow> string \<Rightarrow> node list \<Rightarrow> (string \<times> pyval) list \<Rightarrow> error + string"
where
  "render_node ctx (Text s) = Inr s"
| "render_node ctx (Out e) = eval_out ctx e"
| "render_node ctx (If x body) =
     (case eval_test ctx x of
        Inl e \<Rightarrow> Inl e
      | Inr b \<Rightarrow> (if b then render_nodes ctx body else Inr []))"
| "render_node ctx (ForItems a v body) =
     (case eval_items ctx of
        Inl e \<Rightarrow> Inl e
      | Inr kvs \<Rightarrow> render_loop ctx a v body kvs)"
| "render_nodes ctx [] = Inr []"
| "render_nodes ctx (n # ns) =
     (case render_node ctx n of
        Inl e \<Rightarrow> Inl e
      | Inr s \<Rightarrow> (case render_nodes ctx ns of Inl e \<Rightarrow> Inl e | Inr r \<Rightarrow> Inr (s @ r)))"
| "render_loop ctx a v body [] = Inr []"
| "render_loop ctx a v body (kv # kvs) =
     (case render_nodes (loop_scope ctx a v kv) body of
        Inl e \<Rightarrow> Inl e
      | Inr s \<Rightarrow> (case render_loop ctx a v body kvs of Inl e \<Rightarrow> Inl e | Inr r \<Rightarrow> Inr (s @ r)))"


section \<open>Messages, decorator and prompt\<close>

record message =
  role :: string
  content :: string

text \<open>
  \<open>AIModel._messages(cls, defaults=None, **kwargs)\<close>: for each role in the order
  system, user, the template \<open>kwargs.get(role, "")\<close> is rendered with \<open>defaults\<close> and the
  keywords as its context, and the result is stripped. The first two arguments are the
  templates found under the two roles (\<open>None\<close> when the keyword is absent: the empty
  template), the third is the render context. An exception of the first rendering leaves
  the comprehension before the second starts.
\<close>

definition render_role :: "template option \<Rightarrow> 's render_context \<Rightarrow> error + string" where
  "render_role t ctx =
     (case render_nodes ctx (case t of None \<Rightarrow> [] | Some src \<Rightarrow> src) of
        Inl e \<Rightarrow> Inl e
      | Inr s \<Rightarrow> Inr (strip s))"

definition AIModel_messages ::
  "template option \<Rightarrow> template option \<Rightarrow> 's render_context \<Rightarrow> error + message list" where
  "AIModel_messages system user ctx =
     (case render_role system ctx of
        Inl e \<Rightarrow> Inl e
      | Inr s \<Rightarrow>
          (case render_role user ctx of
             Inl e \<Rightarrow> Inl e
           | Inr u \<Rightarrow> Inr [\<lparr>role = ''system'', content = s\<rparr>, \<lparr>role = ''user'', content = u\<rparr>]))"

text \<open>The names the template engine binds in every context.\<close>

definition engine_globals :: "'s render_context" where
  "engine_globals =
     [''range'' \<mapsto> Opaque, ''dict'' \<mapsto> Opaque, ''lipsum'' \<mapsto> Opaque,
      ''cycler'' \<mapsto> Opaque, ''joiner'' \<mapsto> Opaque, ''namespace'' \<mapsto> Opaque]"

text \<open>
  The keywords \<open>as_decorator\<close> binds onto \<open>_messages\<close>; on a class left undecorated
  only \<open>defaults=None\<close> reaches the context.
\<close>

definition partial_keywords :: "messages_partial option \<Rightarrow> 's render_context" where
  "partial_keywords p =
     (case p of
        None \<Rightarrow> [''defaults'' \<mapsto> Scalar PNone]
      | Some b \<Rightarrow>
          [''system'' \<mapsto> Opaque, ''user'' \<mapsto> Opaque, ''defaults'' \<mapsto> Opaque,
           ''context_fn'' \<mapsto> (case bound_context_fn b of None \<Rightarrow> Scalar PNone | Some f \<Rightarrow> Callable f),
           ''instructions'' \<mapsto> Scalar (bound_instructions b)])"

text \<open>
  The keywords of the call in \<open>as_prompt\<close>: \<open>text\<close>, \<open>functions\<close>, the further keyword
  arguments \<open>extra\<close> of the call, and \<open>instructions\<close> only when it is truthy. A keyword
  of the call replaces a bound one.
\<close>

definition call_keywords ::
  "'s Function list \<Rightarrow> pyval \<Rightarrow> pyval \<Rightarrow> (string \<rightharpoonup> pyval) \<Rightarrow> 's render_context" where
  "call_keywords fs text instructions extra =
     (map_option Scalar \<circ> extra)
       (''text'' \<mapsto> Scalar text, ''functions'' \<mapsto> Registry fs)
     ++ (if truthy instructions then [''instructions'' \<mapsto> Scalar instructions] else Map.empty)"

definition render_context_of ::
  "'s ai_class \<Rightarrow> 's Function list \<Rightarrow> pyval \<Rightarrow> pyval \<Rightarrow> (string \<rightharpoonup> pyval) \<Rightarrow> 's render_context" where
  "render_context_of cls fs text instructions extra =
     engine_globals ++ partial_keywords (cls_messages cls) ++ call_keywords fs text instructions extra"

text \<open>
  The template under a role, \<open>Template(kwargs.get(role, ""))\<close>: the keyword of the call
  when the call passes one, else the keyword bound by the decorator, else the empty
  template. A template bound by the decorator is kept in parsed form. A keyword of the call
  is a value: a string is a template source, and \<open>parse\<close>, the parser of the template
  engine, gives its parsed form or raises; any other value is not a source and the engine
  raises \<open>TypeError\<close>. The parser is a parameter.
\<close>

definition role_template ::
  "(string \<Rightarrow> error + template) \<Rightarrow> template option \<Rightarrow> pyval option \<Rightarrow> error + template" where
  "role_template parse bound given =
     (case given of
        None \<Rightarrow> Inr (case bound of None \<Rightarrow> [] | Some t \<Rightarrow> t)
      | Some (PStr source) \<Rightarrow> parse source
      | Some _ \<Rightarrow> Inl (TypeError ''cannot compile non template nodes''))"

text \<open>
  \<open>cls._messages(text=text, functions=..., **kwargs, ...)\<close> as \<open>as_prompt\<close> calls it. A
  further keyword named \<open>functions\<close> is passed twice: \<open>TypeError\<close>. A further keyword
  named \<open>system\<close> or \<open>user\<close> replaces the template the decorator bound. Every keyword is
  passed on to \<open>render\<close>, whose first parameter is named \<open>self\<close>: a further keyword of that
  name is a \<open>TypeError\<close> at the first rendering. The source builds and renders the system
  template before it builds the user template, so an error of the system rendering comes
  before an error of the user template's parsing.
\<close>

definition cls_messages_call ::
  "(string \<Rightarrow> error + template) \<Rightarrow> 's ai_class \<Rightarrow> 's Function list \<Rightarrow> pyval \<Rightarrow> pyval
     \<Rightarrow> (string \<rightharpoonup> pyval) \<Rightarrow> error + message list" where
  "cls_messages_call parse cls fs text instructions extra =
     (if extra ''functions'' \<noteq> None then Inl (TypeError ''multiple values for keyword argument functions'')
      else
        (case role_template parse (map_option bound_system (cls_messages cls)) (extra ''system'') of
           Inl e \<Rightarrow> Inl e
         | Inr st \<Rightarrow>
             (if extra ''self'' \<noteq> None then Inl (TypeError ''multiple values for argument self'')
              else
                (case role_template parse (map_option bound_user (cls_messages cls)) (extra ''user'') of
                   Inr ut \<Rightarrow>
                     AIModel_messages (Some st) (Some ut)
                       (render_context_of cls fs text instructions extra)
                 | Inl e \<Rightarrow>
                     (case render_role (Some st) (render_context_of cls fs text instructions extra) of
                        Inl e1 \<Rightarrow> Inl e1
                      | Inr s \<Rightarrow> Inl e)))))"

text \<open>
  \<open>AIModel.as_decorator\<close>. A template argument is \<open>None\<close> for Python's \<open>None\<close> or the
  empty string (both false in \<open>system or ...\<close>) and \<open>Some t\<close> for a non-empty source.
  Without a base model the result is the decorator with \<open>system\<close> and \<open>user\<close> resolved;
  \<open>mode\<close> is not passed on, so it is the default \<open>extract\<close> again when the decorator is
  applied. With a base model the result is the subclass with the two bindings.
\<close>

record decorator_kwargs =
  d_system :: "template option"
  d_user :: "template option"
  d_instructions :: pyval
  d_context_fn :: "context_function option"
  d_mode :: mode

record 's base_model =
  bm_name :: string
  bm_fields :: 's

datatype 's decorated = Decorator decorator_kwargs | Subclass "'s ai_class"

definition system_or_default :: "template option \<Rightarrow> mode \<Rightarrow> template" where
  "system_or_default system m =
     (case system of
        Some t \<Rightarrow> t
      | None \<Rightarrow> (if m = Extract then system_extract_prompt else system_generate_prompt))"

definition user_or_default :: "template option \<Rightarrow> template" where
  "user_or_default user = (case user of Some t \<Rightarrow> t | None \<Rightarrow> user_prompt)"

definition decorator_partial :: "decorator_kwargs \<Rightarrow> decorator_kwargs" where
  "decorator_partial kw =
     \<lparr>d_system = Some (system_or_default (d_system kw) (d_mode kw)),
      d_user = Some (user_or_default (d_user kw)),
      d_instructions = d_instructions kw,
      d_context_fn = d_context_fn kw,
      d_mode = Extract\<rparr>"

definition decorated_subclass :: "'s base_model \<Rightarrow> decorator_kwargs \<Rightarrow> 's ai_class" where
  "decorated_subclass b kw =
     \<lparr>cls_name = bm_name b,
      cls_fields = bm_fields b,
      cls_messages =
        Some \<lparr>bound_system = system_or_default (d_system kw) (d_mode kw),
              bound_user = user_or_default (d_user kw),
              bound_context_fn = d_context_fn kw,
              bound_instructions = d_instructions kw\<rparr>,
      cls_functions = Some (d_instructions kw)\<rparr>"

definition as_decorator :: "'s base_model option \<Rightarrow> decorator_kwargs \<Rightarrow> 's decorated" where
  "as_decorator base kw =
     (case base of
        None \<Rightarrow> Decorator (decorator_partial kw)
      | Some b \<Rightarrow> Subclass (decorated_subclass b kw))"

text \<open>
  \<open>AIModel.as_prompt(cls, text=None, *args, __schema__=True, instructions=None, **kwargs)\<close>.
  \<open>extra\<close> is \<open>kwargs\<close>, the further keywords of the call; a keyword with the name of a
  parameter next to that parameter is a \<open>TypeError\<close> of the call. The registry and the
  directive are built first (the further arguments are ignored there), then the messages;
  with \<open>__schema__\<close> the registry is replaced by its schema. \<open>parse\<close> is the parser of the
  template engine.
\<close>

definition parameter_keyword :: "(string \<rightharpoonup> pyval) \<Rightarrow> bool" where
  "parameter_keyword extra =
     (extra ''cls'' \<noteq> None \<or> extra ''text'' \<noteq> None \<or> extra ''__schema__'' \<noteq> None
      \<or> extra ''instructions'' \<noteq> None)"

datatype 's functions_form = Raw "'s Function list" | Schema "'s function_schema list"

record 's prompt =
  prompt_functions :: "'s functions_form"
  prompt_function_call :: string
  prompt_messages :: "message list"

definition as_prompt ::
  "(string \<Rightarrow> error + template) \<Rightarrow> 's ai_class \<Rightarrow> pyval \<Rightarrow> bool \<Rightarrow> pyval \<Rightarrow> (string \<rightharpoonup> pyval)
     \<Rightarrow> error + 's prompt" where
  "as_prompt parse cls text schema_form instructions extra =
     (if parameter_keyword extra then Inl (TypeError ''multiple values for argument'')
      else
        (let fs = AIModel_functions cls None in
         case AIModel_function_call cls schema_form None of
           Inl e \<Rightarrow> Inl e
         | Inr fc \<Rightarrow>
             (case cls_messages_call parse cls fs text instructions extra of
                Inl e \<Rightarrow> Inl e
              | Inr ms \<Rightarrow>
                  Inr \<lparr>prompt_functions = (if schema_form then Schema (registry_schema fs) else Raw fs),
                       prompt_function_call = fc,
                       prompt_messages = ms\<rparr>)))"

text \<open>A class that was never decorated: a plain subclass of \<open>AIModel\<close>.\<close>

definition plain_subclass :: "'s base_model \<Rightarrow> 's ai_class" where
  "plain_subclass b =
     \<lparr>cls_name = bm_name b, cls_fields = bm_fields b, cls_messages = None, cls_functions = None\<rparr>"

section \<open>The default context function\<close>

text \<open>
  \<open>default_context\<close> ignores its argument and reads the clock:
  \<open>datetime.now(ZoneInfo("UTC")).strftime("%A, %d %B %Y at %I:%M:%S %p %Z")\<close>. The
  clock reading is a parameter. The weekday is the proleptic Gregorian ordinal plus 6,
  modulo 7 (Monday is 0), as \<open>date.weekday()\<close> computes it; \<open>%Y\<close> is the year in decimal.
\<close>

record datetime =
  dt_year :: nat
  dt_month :: nat
  dt_day :: nat
  dt_hour :: nat
  dt_minute :: nat
  dt_second :: nat
  dt_microsecond :: nat

definition is_leap :: "nat \<Rightarrow> bool" where
  "is_leap y = (y mod 4 = 0 \<and> (y mod 100 \<noteq> 0 \<or> y mod 400 = 0))"

definition days_before_year :: "nat \<Rightarrow> nat" where
  "days_before_year y = (y - 1) * 365 + (y - 1) div 4 - (y - 1) div 100 + (y - 1) div 400"

definition days_before_month :: "nat \<Rightarrow> nat \<Rightarrow> nat" where
  "days_before_month y m =
     sum_list (take (m - 1) [31, 28, 31, 30, 31, 30, 31, 31, 30, 31, 30, 31])
     + (if 2 < m \<and> is_leap y then 1 else 0)"

definition weekday :: "datetime \<Rightarrow> nat" where
  "weekday d =
     (days_before_year (dt_year d) + days_before_month (dt_year d) (dt_month d) + dt_day d + 6) mod 7"

definition day_names :: "string list" where
  "day_names = [''Monday'', ''Tuesday'', ''Wednesday'', ''Thursday'', ''Friday'', ''Saturday'', ''Sunday'']"

definition month_names :: "string list" where
  "month_names =
     [''January'', ''February'', ''March'', ''April'', ''May'', ''June'', ''July'',
      ''August'', ''September'', ''October'', ''November'', ''December'']"

definition pad2 :: "nat \<Rightarrow> string" where
  "pad2 n = (if n < 10 then CHR ''0'' # nat_digits n else nat_digits n)"

definition hour12 :: "nat \<Rightarrow> nat" where
  "hour12 h = (if h mod 12 = 0 then 12 else h mod 12)"

definition strftime_utc :: "datetime \<Rightarrow> string" where
  "strftime_utc d =
     day_names ! weekday d @ '', '' @ pad2 (dt_day d) @ '' '' @
     month_names ! ((dt_month d - 1) mod 12) @ '' '' @ nat_digits (dt_year d) @ '' at '' @
     pad2 (hour12 (dt_hour d)) @ '':'' @ pad2 (dt_minute d) @ '':'' @ pad2 (dt_second d) @ '' '' @
     (if dt_hour d < 12 then ''AM'' else ''PM'') @ '' UTC''"

definition default_context :: "datetime \<Rightarrow> context_function" where
  "default_context now text = Inr [(''The current date is'', PStr (strftime_utc now))]"

section \<open>Completion calls and construction\<close>

text \<open>
  The completion backend (\<open>marvin.core.ChatCompletion\<close>) is a collaborator outside the
  source files: \<open>backend\<close> is \<open>ChatCompletion(**prompt).create()\<close>, from the request to
  the response or an exception, and \<open>call_function\<close> is
  \<open>completion.call_function(as_message=False)\<close>, from the response to the mapping of
  the function call's arguments. Each operation also returns the requests it sent to the
  backend, in order.

  \<open>to_chat_completion\<close> builds the request with \<open>__schema__=False\<close> unless the call says
  otherwise; the first positional argument is the text, a keyword \<open>text\<close> next to it is
  a \<open>TypeError\<close>, the other positional arguments are ignored.
\<close>

definition to_chat_completion ::
  "(string \<Rightarrow> error + template) \<Rightarrow> 's ai_class \<Rightarrow> pyval list \<Rightarrow> (string \<rightharpoonup> pyval)
     \<Rightarrow> error + 's prompt" where
  "to_chat_completion parse cls args kwargs =
     (let schema_form = (case kwargs ''__schema__'' of None \<Rightarrow> False | Some v \<Rightarrow> truthy v);
          instructions = (case kwargs ''instructions'' of None \<Rightarrow> PNone | Some v \<Rightarrow> v);
          extra = kwargs(''__schema__'' := None, ''instructions'' := None, ''text'' := None)
      in case args of
           [] \<Rightarrow>
             as_prompt parse cls (case kwargs ''text'' of None \<Rightarrow> PNone | Some v \<Rightarrow> v)
               schema_form instructions extra
         | a # _ \<Rightarrow>
             (if kwargs ''text'' \<noteq> None
              then Inl (TypeError ''multiple values for argument text'')
              else as_prompt parse cls a schema_form instructions extra))"

definition create ::
  "(string \<Rightarrow> error + template) \<Rightarrow> ('s prompt \<Rightarrow> error + 'r) \<Rightarrow> 's ai_class \<Rightarrow> pyval list
     \<Rightarrow> (string \<rightharpoonup> pyval) \<Rightarrow> (error + 'r) \<times> 's prompt list" where
  "create parse backend cls args kwargs =
     (case to_chat_completion parse cls args kwargs of
        Inl e \<Rightarrow> (Inl e, [])
      | Inr p \<Rightarrow> (backend p, [p]))"

definition call ::
  "(string \<Rightarrow> error + template) \<Rightarrow> ('s prompt \<Rightarrow> error + 'r) \<Rightarrow> ('r \<Rightarrow> error + (string \<rightharpoonup> pyval))
     \<Rightarrow> 's ai_class \<Rightarrow> pyval list \<Rightarrow> (string \<rightharpoonup> pyval)
     \<Rightarrow> (error + (string \<rightharpoonup> pyval)) \<times> 's prompt list" where
  "call parse backend call_function cls args kwargs =
     (case create parse backend cls args kwargs of
        (Inl e, sent) \<Rightarrow> (Inl e, sent)
      | (Inr completion, sent) \<Rightarrow> (call_function completion, sent))"

text \<open>
  \<open>AIModel.__init__(self, *args, **kwargs)\<close>. \<open>validate\<close> is the constructor of the
  pydantic base class: from the keyword arguments to the instance or a validation error.
\<close>

definition AIModel_init ::
  "(string \<Rightarrow> error + template) \<Rightarrow> ('s prompt \<Rightarrow> error + 'r) \<Rightarrow> ('r \<Rightarrow> error + (string \<rightharpoonup> pyval))
     \<Rightarrow> ((string \<rightharpoonup> pyval) \<Rightarrow> error + 'i)
     \<Rightarrow> 's ai_class \<Rightarrow> pyval list \<Rightarrow> (string \<rightharpoonup> pyval) \<Rightarrow> (error + 'i) \<times> 's prompt list" where
  "AIModel_init parse backend call_function validate cls args kwargs =
     (let instructions = (case kwargs ''instructions_'' of None \<Rightarrow> PNone | Some v \<Rightarrow> v);
          kwargs1 = kwargs(''instructions_'' := None);
          text = (case args of [] \<Rightarrow> PNone | a # _ \<Rightarrow> a)
      in if truthy text
         then (case call parse backend call_function cls [text] [''instructions'' \<mapsto> instructions] of
                 (Inl e, sent) \<Rightarrow> (Inl e, sent)
               | (Inr k, sent) \<Rightarrow> (validate (kwargs1 ++ k), sent))
         else (validate kwargs1, []))"

section \<open>The batch mapper\<close>

text \<open>
  \<open>zip(*lists)\<close>: the tuples of the elements at the same index, as many as the shortest
  list has; no tuple at all when there is no list.
\<close>

definition min_length :: "'a list list \<Rightarrow> nat" where
  "min_length ls = (case ls of [] \<Rightarrow> 0 | l # rest \<Rightarrow> foldr (\<lambda>x m. min (length x) m) rest (length l))"

definition zip_star :: "'a list list \<Rightarrow> 'a list list" where
  "zip_star ls = map (\<lambda>i. map (\<lambda>l. l ! i) ls) [0..<min_length ls]"

text \<open>
  The arguments of the calls \<open>amap\<close> builds, one pair of positional and keyword arguments
  per task. \<open>map_kwargs\<close> is the dictionary of keyword lists in insertion order.
\<close>

definition amap_calls ::
  "pyval list list \<Rightarrow> (string \<times> pyval list) list \<Rightarrow> (pyval list \<times> (string \<rightharpoonup> pyval)) list" where
  "amap_calls map_args map_kwargs =
     (if map_kwargs = []
      then map (\<lambda>a. (a, Map.empty)) (zip_star map_args)
      else map (\<lambda>(a, kw). (a, map_of (rev (zip (map fst map_kwargs) kw))))
             (zip (zip_star map_args) (zip_star (map snd map_kwargs))))"

text \<open>
  \<open>asyncio.gather(*tasks)\<close> of the standard library, as documented for
  \<open>return_exceptions=False\<close>: when every task returns, the list of the results in the
  order of the tasks; otherwise the first exception raised, in the order in which the
  tasks finish. \<open>outcomes\<close> are the tasks' outcomes in task order and \<open>finish\<close> is the
  order in which the scheduler lets them finish: the task indices, each once. A task that
  raised ends the wait; the tasks after it in \<open>finish\<close> are not waited for.
\<close>

fun first_raised :: "(error + 'a) list \<Rightarrow> nat list \<Rightarrow> error option" where
  "first_raised outcomes [] = None"
| "first_raised outcomes (i # rest) =
     (if i < length outcomes
      then (case outcomes ! i of Inl e \<Rightarrow> Some e | Inr _ \<Rightarrow> first_raised outcomes rest)
      else first_raised outcomes rest)"

fun returned :: "(error + 'a) list \<Rightarrow> 'a list" where
  "returned [] = []"
| "returned (Inr r # rest) = r # returned rest"
| "returned (Inl e # rest) = returned rest"

definition gather :: "(error + 'a) list \<Rightarrow> nat list \<Rightarrow> error + 'a list" where
  "gather outcomes finish =
     (case first_raised outcomes finish of
        Some e \<Rightarrow> Inl e
      | None \<Rightarrow> Inr (returned outcomes))"

text \<open>
  \<open>acall\<close> is \<open>call\<close> on the asynchronous path, and \<open>amap\<close> gathers one \<open>acall\<close> per
  built call.
\<close>

definition acall ::
  "(string \<Rightarrow> error + template) \<Rightarrow> ('s prompt \<Rightarrow> error + 'r) \<Rightarrow> ('r \<Rightarrow> error + (string \<rightharpoonup> pyval))
     \<Rightarrow> 's ai_class \<Rightarrow> pyval list \<Rightarrow> (string \<rightharpoonup> pyval) \<Rightarrow> error + (string \<rightharpoonup> pyval)" where
  "acall parse backend call_function cls args kwargs =
     fst (call parse backend call_function cls args kwargs)"

definition amap ::
  "(string \<Rightarrow> error + template) \<Rightarrow> ('s prompt \<Rightarrow> error + 'r) \<Rightarrow> ('r \<Rightarrow> error + (string \<rightharpoonup> pyval))
     \<Rightarrow> 's ai_class \<Rightarrow> pyval list list \<Rightarrow> (string \<times> pyval list) list \<Rightarrow> nat list
     \<Rightarrow> error + (string \<rightharpoonup> pyval) list" where
  "amap parse backend call_function cls map_args map_kwargs finish =
     gather (map (\<lambda>(a, kw). acall parse backend call_function cls a kw)
               (amap_calls map_args map_kwargs)) finish"

text \<open>
  Modelled from the spec: \<open>run_sync\<close> (\<open>marvin.utilities.async_utils\<close>) is not among the
  source files. \<open>map\<close> is the synchronous wrapper of \<open>amap\<close>: it runs the batch to
  completion and returns what the batch returns.
\<close>

definition AIModel_map ::
  "(string \<Rightarrow> error + template) \<Rightarrow> ('s prompt \<Rightarrow> error + 'r) \<Rightarrow> ('r \<Rightarrow> error + (string \<rightharpoonup> pyval))
     \<Rightarrow> 's ai_class \<Rightarrow> pyval list list \<Rightarrow> (string \<times> pyval list) list \<Rightarrow> nat list
     \<Rightarrow> error + (string \<rightharpoonup> pyval) list" where
  "AIModel_map parse backend call_function cls map_args map_kwargs finish =
     amap parse backend call_function cls map_args map_kwargs finish"

section \<open>Example inputs\<close>

text \<open>
  The location schema of the docstring of \<open>amap\<close>, the keyword arguments of a bare
  \<open>ai_model\<close> decoration at a given clock reading, and two clock readings within the
  same second.
\<close>

definition Location :: "(string \<times> string) list base_model" where
  "Location = \<lparr>bm_name = ''Location'', bm_fields = [(''city'', ''str''), (''state'', ''str'')]\<rparr>"

definition default_kwargs :: "datetime \<Rightarrow> decorator_kwargs" where
  "default_kwargs now =
     \<lparr>d_system = None, d_user = None, d_instructions = PNone,
      d_context_fn = Some (default_context now), d_mode = Extract\<rparr>"

text \<open>
  The parser of the template engine on the sources the examples pass at a call: a source
  with no brace and no line break is literal text, and the one source with a variable is
  listed with its parsed form.
\<close>

definition example_parse :: "string \<Rightarrow> error + template" where
  "example_parse source =
     (if source = ''Where is {{ text }}?''
      then Inr [Text ''Where is '', Out (Var ''text''), Text ''?'']
      else if CHR ''{'' \<notin> set source \<and> CHR 0x0A \<notin> set source \<and> CHR 0x0D \<notin> set source
      then Inr (if source = [] then [] else [Text source])
      else Inl Unmodelled)"

text \<open>
  A decoration with a short system template and no context function, a backend that knows
  two cities and raises for any other request, and the reading of its answer as the
  arguments of the function call.
\<close>

definition city_kwargs :: decorator_kwargs where
  "city_kwargs =
     \<lparr>d_system = Some [Text ''Name the city.''], d_user = None, d_instructions = PNone,
      d_context_fn = None, d_mode = Extract\<rparr>"

definition city_backend :: "'s prompt \<Rightarrow> error + string" where
  "city_backend p =
     (if map content (prompt_messages p) = [''Name the city.'', ''The text to parse: windy city'']
      then Inr ''Chicago''
      else if map content (prompt_messages p) = [''Name the city.'', ''The text to parse: big apple'']
      then Inr ''New York City''
      else Inl (Raised ''rate limit''))"

definition city_arguments :: "string \<Rightarrow> error + (string \<rightharpoonup> pyval)" where
  "city_arguments answer = Inr [''city'' \<mapsto> PStr answer]"

definition clock_a :: datetime where
  "clock_a = \<lparr>dt_year = 2023, dt_month = 8, dt_day = 14, dt_hour = 15, dt_minute = 4,
              dt_second = 9, dt_microsecond = 120\<rparr>"




section \<open>Stripping\<close>

lemma rstrip_Nil_iff: "rstrip s = [] \<longleftrightarrow> (\<forall>c \<in> set s. isspace c)"
  by (simp add: rstrip_def)

lemma rstrip_append: "rstrip (a @ b) = (if rstrip b = [] then rstrip a else a @ rstrip b)"
  by (auto simp: rstrip_def dropWhile_append)

lemma rstrip_take: "rstrip s = take (length s - length (takeWhile isspace (rev s))) s"
  unfolding rstrip_def dropWhile_eq_drop rev_drop by simp

lemma dropWhile_all_Nil:
  assumes "\<forall>c \<in> set (dropWhile P s). P c"
  shows "dropWhile P s = []"
proof (rule ccontr)
  assume ne: "dropWhile P s \<noteq> []"
  then have "\<not> P (hd (dropWhile P s))" by (rule hd_dropWhile)
  moreover have "hd (dropWhile P s) \<in> set (dropWhile P s)" using ne by (rule hd_in_set)
  ultimately show False using assms by blast
qed

lemma strip_Nil_iff: "strip s = [] \<longleftrightarrow> (\<forall>c \<in> set s. isspace c)"
proof
  assume "strip s = []"
  then have "\<forall>c \<in> set (dropWhile isspace s). isspace c"
    unfolding strip_def lstrip_def rstrip_Nil_iff .
  then have "dropWhile isspace s = []" by (rule dropWhile_all_Nil)
  then show "\<forall>c \<in> set s. isspace c" by simp
next
  assume "\<forall>c \<in> set s. isspace c"
  then have "lstrip s = []" by (simp add: lstrip_def)
  then show "strip s = []" by (simp add: strip_def rstrip_def)
qed

lemma trimmed_strip: "trimmed (strip s)"
proof (cases "strip s")
  case Nil
  then show ?thesis by (simp add: trimmed_def)
next
  case (Cons c cs)
  define t where "t = lstrip s"
  have ne: "rstrip t \<noteq> []" using Cons by (simp add: strip_def t_def)
  have "t \<noteq> []" using ne by (cases t) (simp_all add: rstrip_def)
  then have tne: "dropWhile isspace s \<noteq> []"
    unfolding t_def lstrip_def .
  have h: "\<not> isspace (hd t)"
    unfolding t_def lstrip_def using tne by (rule hd_dropWhile)
  have hd_eq: "hd (rstrip t) = hd t"
  proof -
    obtain n where n: "rstrip t = take n t" using rstrip_take by blast
    from ne have "0 < n" unfolding n by (cases n) simp_all
    then show ?thesis unfolding n by (rule hd_take)
  qed
  have first: "\<not> isspace c"
  proof -
    have "hd (strip s) = c" using Cons by simp
    then show ?thesis using h hd_eq by (simp add: strip_def t_def)
  qed
  have dne: "dropWhile isspace (rev t) \<noteq> []"
    using ne unfolding rstrip_def by simp
  have "last (rstrip t) = hd (dropWhile isspace (rev t))"
    unfolding rstrip_def by (rule last_rev)
  moreover have "\<not> isspace (hd (dropWhile isspace (rev t)))"
    using dne by (rule hd_dropWhile)
  ultimately have "\<not> isspace (last (strip s))" by (simp add: strip_def t_def)
  with first Cons show ?thesis by (simp add: trimmed_def)
qed





section \<open>The function specification and the forced call\<close>

text \<open>
  C1. Whatever the class (so for a class decorated in either mode), the form of the
  directive and the keywords of the call, the name in the directive of \<open>_function_call\<close>
  is \<open>format_response\<close>, and the registry of \<open>_functions\<close> has exactly one function,
  whose name is \<open>format_response\<close> both as \<open>__name__\<close> and in its schema.
\<close>

theorem forced_call_matches_registry:
  "AIModel_function_call cls schema_form call_kw = Inr ''format_response'' \<and>
   map fn_name (AIModel_functions cls call_kw) = [''format_response''] \<and>
   map name (registry_schema (AIModel_functions cls call_kw)) = [''format_response'']"
  by (simp add: AIModel_function_call_def AIModel_functions_def functions_direct_def first_def
      registry_schema_def Function_schema_def from_model_def split: option.splits)


text \<open>
  C6. Decorating a base model with the same arguments in mode \<open>extract\<close> and in mode
  \<open>generate\<close> gives two classes that differ in the system template bound onto
  \<open>_messages\<close> and in nothing else; the schema of the function registry (name,
  description and parameters) and the forced call are the same in both.
\<close>

theorem mode_changes_only_system_prompt:
  "\<exists>ce cg be bg.
     as_decorator (Some b) (kw\<lparr>d_mode := Extract\<rparr>) = Subclass ce \<and>
     as_decorator (Some b) (kw\<lparr>d_mode := Generate\<rparr>) = Subclass cg \<and>
     cls_messages ce = Some be \<and>
     cls_messages cg = Some bg \<and>
     bg = be\<lparr>bound_system := system_or_default (d_system kw) Generate\<rparr> \<and>
     cg = ce\<lparr>cls_messages := Some bg\<rparr> \<and>
     registry_schema (AIModel_functions cg call_kw) = registry_schema (AIModel_functions ce call_kw) \<and>
     AIModel_function_call cg schema_form call_kw = AIModel_function_call ce schema_form call_kw"
  by (simp add: as_decorator_def decorated_subclass_def AIModel_function_call_def
      AIModel_functions_def functions_direct_def first_def registry_schema_def Function_schema_def
      from_model_def split: option.splits)

lemma decorator_then_apply:
  "as_decorator None kw = Decorator kw' \<Longrightarrow> as_decorator (Some b) kw' = as_decorator (Some b) kw"
  by (auto simp: as_decorator_def decorator_partial_def decorated_subclass_def
      system_or_default_def user_or_default_def)

section \<open>Rendering the messages\<close>

lemma render_nodes_append:
  "render_nodes ctx (a @ b) =
     (case render_nodes ctx a of
        Inl e \<Rightarrow> Inl e
      | Inr s \<Rightarrow> (case render_nodes ctx b of Inl e \<Rightarrow> Inl e | Inr r \<Rightarrow> Inr (s @ r)))"
  by (induction a) (auto split: sum.splits)

lemma context_text:
  "render_context_of cls fs text instructions extra ''text'' = Some (Scalar text)"
  by (simp add: render_context_of_def call_keywords_def map_add_def)

lemma context_functions:
  "render_context_of cls fs text instructions extra ''functions'' = Some (Registry fs)"
  by (simp add: render_context_of_def call_keywords_def map_add_def)

lemma render_user_prompt:
  "render_nodes (render_context_of cls fs text instructions extra) user_prompt =
     Inr (''The text to parse: '' @ py_str text @ nl @ ''    '')"
  by (simp add: user_prompt_def eval_out_def context_text)

lemma strip_user_prompt:
  "strip (''The text to parse: '' @ t @ nl @ ''    '') = rstrip (''The text to parse: '' @ t)"
proof -
  have l: "lstrip (''The text to parse: '' @ t @ nl @ ''    '') = ''The text to parse: '' @ t @ nl @ ''    ''"
    by (simp add: lstrip_def isspace_def)
  have w: "rstrip (nl @ ''    '') = []"
    by (simp add: rstrip_Nil_iff nl_def isspace_def)
  have "rstrip ((''The text to parse: '' @ t) @ (nl @ ''    '')) = rstrip (''The text to parse: '' @ t)"
    by (subst rstrip_append) (simp add: w)
  then show ?thesis unfolding strip_def l by simp
qed

lemma messages_shape:
  assumes "AIModel_messages sys usr ctx = Inr ms"
  shows "\<exists>rs ru. render_role sys ctx = Inr rs \<and> render_role usr ctx = Inr ru \<and>
           ms = [\<lparr>role = ''system'', content = rs\<rparr>, \<lparr>role = ''user'', content = ru\<rparr>]"
  using assms by (auto simp: AIModel_messages_def split: sum.splits)

lemma render_role_trimmed: "render_role t ctx = Inr s \<Longrightarrow> trimmed s"
  by (auto simp: render_role_def trimmed_strip split: sum.splits)

lemma role_template_cases:
  assumes "role_template parse bound given = Inr t"
  shows "(given = None \<longrightarrow> t = (case bound of None \<Rightarrow> [] | Some b \<Rightarrow> b))
       \<and> (\<forall>v. given = Some v \<longrightarrow> (\<exists>s. v = PStr s \<and> parse s = Inr t))"
  using assms by (auto simp: role_template_def split: option.splits pyval.splits)

lemma render_role_bound:
  "render_role (Some (case b of None \<Rightarrow> [] | Some t \<Rightarrow> t)) ctx = render_role b ctx"
  by (cases b) (simp_all add: render_role_def)

lemma cls_messages_call_returns:
  assumes "cls_messages_call parse cls fs text instructions extra = Inr ms"
  shows "\<exists>st ut.
           role_template parse (map_option bound_system (cls_messages cls)) (extra ''system'') = Inr st
         \<and> role_template parse (map_option bound_user (cls_messages cls)) (extra ''user'') = Inr ut
         \<and> AIModel_messages (Some st) (Some ut) (render_context_of cls fs text instructions extra)
             = Inr ms"
  using assms
  by (auto simp: cls_messages_call_def split: sum.splits if_splits)

lemma as_prompt_messages:
  assumes "as_prompt parse cls text schema_form instructions extra = Inr p"
  shows "cls_messages_call parse cls (AIModel_functions cls None) text instructions extra
         = Inr (prompt_messages p)"
  using assms
  by (auto simp: as_prompt_def Let_def split: sum.splits if_splits)

lemma as_prompt_rendered:
  assumes "as_prompt parse cls text schema_form instructions extra = Inr p"
  shows "\<exists>st ut rs ru.
           role_template parse (map_option bound_system (cls_messages cls)) (extra ''system'') = Inr st
         \<and> role_template parse (map_option bound_user (cls_messages cls)) (extra ''user'') = Inr ut
         \<and> render_role (Some st)
              (render_context_of cls (AIModel_functions cls None) text instructions extra) = Inr rs
         \<and> render_role (Some ut)
              (render_context_of cls (AIModel_functions cls None) text instructions extra) = Inr ru
         \<and> prompt_messages p = [\<lparr>role = ''system'', content = rs\<rparr>, \<lparr>role = ''user'', content = ru\<rparr>]"
proof -
  from cls_messages_call_returns [OF as_prompt_messages [OF assms]]
  obtain st ut where
    t: "role_template parse (map_option bound_system (cls_messages cls)) (extra ''system'') = Inr st"
       "role_template parse (map_option bound_user (cls_messages cls)) (extra ''user'') = Inr ut"
    and m: "AIModel_messages (Some st) (Some ut)
              (render_context_of cls (AIModel_functions cls None) text instructions extra)
            = Inr (prompt_messages p)"
    by blast
  from messages_shape [OF m] t show ?thesis by blast
qed

lemma render_role_nonempty:
  assumes "render_role (Some (Text s # ns)) ctx = Inr c" and "ch \<in> set s" and "\<not> isspace ch"
  shows "c \<noteq> []"
proof -
  from assms(1) obtain r where r: "render_nodes ctx ns = Inr r" and c: "c = strip (s @ r)"
    by (auto simp: render_role_def split: sum.splits)
  have "ch \<in> set (s @ r)" using assms(2) by simp
  with assms(3) show ?thesis unfolding c strip_Nil_iff by blast
qed

lemma system_prompt_nonempty:
  assumes "render_role (Some (system_or_default None m)) ctx = Inr c"
  shows "c \<noteq> []"
proof -
  have "\<exists>s ns. system_or_default None m = Text s # ns \<and> CHR ''T'' \<in> set s"
    by (cases m) (simp_all add: system_or_default_def system_extract_prompt_def
        system_generate_prompt_def)
  then obtain s ns where t: "system_or_default None m = Text s # ns" and s: "CHR ''T'' \<in> set s"
    by blast
  have "\<not> isspace (CHR ''T'')" by (simp add: isspace_def)
  with assms [unfolded t] s show ?thesis by (rule render_role_nonempty)
qed

lemma user_prompt_nonempty:
  assumes "render_role (Some user_prompt) ctx = Inr c"
  shows "c \<noteq> []"
proof -
  have sp: "\<not> isspace (CHR ''T'')" by (simp add: isspace_def)
  have mem: "CHR ''T'' \<in> set ''The text to parse: ''" by simp
  from assms [unfolded user_prompt_def] mem sp show ?thesis by (rule render_role_nonempty)
qed

lemma render_loop_extract:
  "render_loop ctx ''arg'' ''value'' [Out (Var ''arg''), Text '': '', Out (Var ''value'')] kvs =
     Inr (concat (map (\<lambda>kv. fst kv @ '': '' @ py_str (snd kv)) kvs))"
  by (induction kvs) (simp_all add: loop_scope_def eval_out_def)

lemma render_loop_generate:
  "render_loop ctx ''arg'' ''value''
     [Text ''    - '', Out (Var ''arg''), Text '': '', Out (Var ''value''), Text nl] kvs =
     Inr (concat (map (\<lambda>kv. ''    - '' @ fst kv @ '': '' @ py_str (snd kv) @ nl) kvs))"
  by (induction kvs) (simp_all add: loop_scope_def eval_out_def)

lemma context_instructions:
  assumes "cls_messages cls = Some b"
  shows "\<exists>v. render_context_of cls fs text instructions extra ''instructions'' = Some (Scalar v)"
  using assms
  by (auto simp: render_context_of_def call_keywords_def partial_keywords_def map_add_def
      split: option.splits)

lemma context_context_fn:
  assumes "cls_messages cls = Some b" and "extra ''context_fn'' = None"
  shows "render_context_of cls fs text instructions extra ''context_fn'' =
           Some (case bound_context_fn b of None \<Rightarrow> Scalar PNone | Some f \<Rightarrow> Callable f)"
  using assms
  by (auto simp: render_context_of_def call_keywords_def partial_keywords_def map_add_def
      split: option.splits)

lemma render_system_default:
  assumes "ctx ''functions'' = Some (Registry [f])"
    and "ctx ''instructions'' = Some (Scalar i)"
    and "ctx ''text'' = Some (Scalar txt)"
    and "ctx ''context_fn'' = Some (case cf of None \<Rightarrow> Scalar PNone | Some g \<Rightarrow> Callable g)"
    and "\<forall>g. cf = Some g \<longrightarrow> (\<exists>kvs. g txt = Inr kvs)"
  shows "\<exists>r. render_nodes ctx (system_or_default None m) = Inr r"
proof (cases cf)
  case None
  with assms show ?thesis
    by (cases m) (simp_all add: system_or_default_def system_extract_prompt_def
        system_generate_prompt_def eval_out_def eval_test_def)
next
  case (Some g)
  with assms obtain kvs where "g txt = Inr kvs" by blast
  with Some assms(1-4) show ?thesis
    by (cases m) (simp_all add: system_or_default_def system_extract_prompt_def
        system_generate_prompt_def eval_out_def eval_test_def eval_items_def
        render_loop_extract render_loop_generate)
qed

lemma as_prompt_returns:
  assumes "cls_messages cls = Some b"
    and "bound_system b = system_or_default None m"
    and "bound_user b = user_prompt"
    and "\<forall>g. bound_context_fn b = Some g \<longrightarrow> (\<exists>kvs. g text = Inr kvs)"
    and "extra ''functions'' = None" and "extra ''system'' = None"
    and "extra ''user'' = None" and "extra ''context_fn'' = None"
    and "extra ''self'' = None" and "\<not> parameter_keyword extra"
  shows "\<exists>p. as_prompt parse cls text schema_form instructions extra = Inr p"
proof -
  let ?fs = "AIModel_functions cls None"
  let ?ctx = "render_context_of cls ?fs text instructions extra"
  have "\<exists>f. ?fs = [f]"
    by (simp add: AIModel_functions_def functions_direct_def split: option.splits)
  then obtain f where f: "?fs = [f]" by blast
  obtain i where i: "?ctx ''instructions'' = Some (Scalar i)"
    using context_instructions [OF assms(1)] by blast
  have "\<exists>r. render_nodes ?ctx (system_or_default None m) = Inr r"
    by (rule render_system_default [of _ f i "text" "bound_context_fn b"])
       (simp_all add: context_functions f i [unfolded f] context_text context_context_fn assms(1,8,4))
  then obtain r where r: "render_nodes ?ctx (bound_system b) = Inr r"
    unfolding assms(2) by blast
  have u: "render_nodes ?ctx (bound_user b) = Inr (''The text to parse: '' @ py_str text @ nl @ ''    '')"
    unfolding assms(3) by (rule render_user_prompt)
  have c: "AIModel_function_call cls schema_form None = Inr ''format_response''"
    by (simp add: AIModel_function_call_def AIModel_functions_def functions_direct_def first_def
      registry_schema_def Function_schema_def from_model_def split: option.splits)
  show ?thesis
    unfolding as_prompt_def Let_def c cls_messages_call_def role_template_def AIModel_messages_def
      render_role_def
    using assms(1,5,6,7,9,10) r u by simp
qed

lemma default_context_returns: "\<exists>kvs. default_context now t = Inr kvs"
  by (simp add: default_context_def)

lemma default_class_messages:
  "cls_messages (decorated_subclass Location (default_kwargs clock_a)) =
     Some \<lparr>bound_system = system_or_default None Extract, bound_user = user_prompt,
           bound_context_fn = Some (default_context clock_a), bound_instructions = PNone\<rparr>"
  by (simp add: decorated_subclass_def default_kwargs_def user_or_default_def)

lemma default_prompt_returns:
  "\<exists>p. as_prompt example_parse (decorated_subclass Location (default_kwargs clock_a))
         (PStr ''the windy city'') False PNone Map.empty = Inr p"
proof (rule as_prompt_returns [OF default_class_messages, where m = Extract])
  show "\<forall>g. bound_context_fn \<lparr>bound_system = system_or_default None Extract, bound_user = user_prompt,
           bound_context_fn = Some (default_context clock_a), bound_instructions = PNone\<rparr> = Some g \<longrightarrow>
        (\<exists>kvs. g (PStr ''the windy city'') = Inr kvs)"
    using default_context_returns by simp
qed (simp_all add: parameter_keyword_def)

lemma render_role_error:
  assumes "render_nodes ctx pre = Inr s" and "render_node ctx n = Inl e"
  shows "render_role (Some (pre @ n # post)) ctx = Inl e"
  using assms by (simp add: render_role_def render_nodes_append)

lemma render_role_skip:
  assumes "render_node ctx n = Inr []"
  shows "render_role (Some (pre @ n # post)) ctx = render_role (Some (pre @ post)) ctx"
  using assms by (simp add: render_role_def render_nodes_append split: sum.splits)

text \<open>
  C8 (as amended). Whenever \<open>as_prompt\<close> returns, its messages are exactly two, the first
  with role \<open>system\<close> and the second with role \<open>user\<close>, and the content of each neither
  starts nor ends with whitespace: it is the stripped rendering of the template in effect
  under its role, which is the template bound by the decorator when the call passes no
  keyword of that name, and the parsed source the call passes otherwise. When the call
  passes no \<open>user\<close> keyword and the bound user template is the built-in \<open>user_prompt\<close>, the
  user content is \<open>The text to parse: \<close> followed by the \<open>str()\<close> of the text, with
  trailing whitespace removed. The user template is an argument of the decorator and a
  keyword of the call, so the framing is the default and not fixed.
\<close>

theorem two_messages_system_then_user:
  assumes "as_prompt parse cls text schema_form instructions extra = Inr p"
  shows "map role (prompt_messages p) = [''system'', ''user'']
       \<and> trimmed (content (prompt_messages p ! 0))
       \<and> trimmed (content (prompt_messages p ! 1))
       \<and> (extra ''system'' = None \<longrightarrow>
            render_role (map_option bound_system (cls_messages cls))
              (render_context_of cls (AIModel_functions cls None) text instructions extra)
            = Inr (content (prompt_messages p ! 0)))
       \<and> (extra ''user'' = None \<longrightarrow>
            render_role (map_option bound_user (cls_messages cls))
              (render_context_of cls (AIModel_functions cls None) text instructions extra)
            = Inr (content (prompt_messages p ! 1)))
       \<and> (\<forall>v. extra ''system'' = Some v \<longrightarrow>
            (\<exists>source t. v = PStr source \<and> parse source = Inr t
               \<and> render_role (Some t)
                    (render_context_of cls (AIModel_functions cls None) text instructions extra)
                  = Inr (content (prompt_messages p ! 0))))
       \<and> (\<forall>v. extra ''user'' = Some v \<longrightarrow>
            (\<exists>source t. v = PStr source \<and> parse source = Inr t
               \<and> render_role (Some t)
                    (render_context_of cls (AIModel_functions cls None) text instructions extra)
                  = Inr (content (prompt_messages p ! 1))))
       \<and> (extra ''user'' = None \<and> map_option bound_user (cls_messages cls) = Some user_prompt
            \<longrightarrow> content (prompt_messages p ! 1) = rstrip (''The text to parse: '' @ py_str text))"
proof -
  let ?ctx = "render_context_of cls (AIModel_functions cls None) text instructions extra"
  from as_prompt_rendered [OF assms]
  obtain st ut rs ru where
    ts: "role_template parse (map_option bound_system (cls_messages cls)) (extra ''system'') = Inr st"
    and tu: "role_template parse (map_option bound_user (cls_messages cls)) (extra ''user'') = Inr ut"
    and rs: "render_role (Some st) ?ctx = Inr rs"
    and ru: "render_role (Some ut) ?ctx = Inr ru"
    and ms: "prompt_messages p = [\<lparr>role = ''system'', content = rs\<rparr>, \<lparr>role = ''user'', content = ru\<rparr>]"
    by blast
  have tr: "trimmed rs" "trimmed ru"
    using rs ru by (auto dest: render_role_trimmed)
  have s0: "render_role (map_option bound_system (cls_messages cls)) ?ctx = Inr rs"
    if "extra ''system'' = None"
    using role_template_cases [OF ts] that rs
    by (cases "cls_messages cls") (simp_all add: render_role_def)
  have u0: "render_role (map_option bound_user (cls_messages cls)) ?ctx = Inr ru"
    if "extra ''user'' = None"
    using role_template_cases [OF tu] that ru
    by (cases "cls_messages cls") (simp_all add: render_role_def)
  have s1: "\<exists>source t. v = PStr source \<and> parse source = Inr t \<and> render_role (Some t) ?ctx = Inr rs"
    if "extra ''system'' = Some v" for v
    using role_template_cases [OF ts] that rs by auto
  have u1: "\<exists>source t. v = PStr source \<and> parse source = Inr t \<and> render_role (Some t) ?ctx = Inr ru"
    if "extra ''user'' = Some v" for v
    using role_template_cases [OF tu] that ru by auto
  have fr: "ru = rstrip (''The text to parse: '' @ py_str text)"
    if "extra ''user'' = None" "map_option bound_user (cls_messages cls) = Some user_prompt"
  proof -
    have "render_role (Some user_prompt) ?ctx = Inr (rstrip (''The text to parse: '' @ py_str text))"
      unfolding render_role_def option.case render_user_prompt sum.case strip_user_prompt ..
    with u0 [OF that(1)] show ?thesis unfolding that(2) by simp
  qed
  show ?thesis
    unfolding ms using tr s0 u0 s1 u1 fr by simp
qed

theorem two_messages_witness:
  "\<exists>p. as_prompt example_parse (decorated_subclass Location (default_kwargs clock_a))
         (PStr ''the windy city'') False PNone Map.empty = Inr p
       \<and> map role (prompt_messages p) = [''system'', ''user'']
       \<and> trimmed (content (prompt_messages p ! 0))
       \<and> content (prompt_messages p ! 1) = ''The text to parse: the windy city''"
proof -
  obtain p where p: "as_prompt example_parse (decorated_subclass Location (default_kwargs clock_a))
         (PStr ''the windy city'') False PNone Map.empty = Inr p"
    using default_prompt_returns by (rule exE)
  have u: "Map.empty ''user'' = (None :: pyval option)
           \<and> map_option bound_user (cls_messages (decorated_subclass Location (default_kwargs clock_a)))
             = Some user_prompt"
    unfolding default_class_messages by simp
  have r: "rstrip (''The text to parse: '' @ py_str (PStr ''the windy city''))
             = ''The text to parse: the windy city''"
    by (simp add: rstrip_def isspace_def)
  note t = two_messages_system_then_user [OF p]
  have "content (prompt_messages p ! 1) = rstrip (''The text to parse: '' @ py_str (PStr ''the windy city''))"
    using t [THEN conjunct2, THEN conjunct2, THEN conjunct2, THEN conjunct2, THEN conjunct2,
        THEN conjunct2, THEN conjunct2] u
    by (rule mp)
  then have "content (prompt_messages p ! 1) = ''The text to parse: the windy city''"
    unfolding r .
  with p t [THEN conjunct1] t [THEN conjunct2, THEN conjunct1]
  show ?thesis by (intro exI [of _ p] conjI)
qed

text \<open>
  A class decorated with its own user template: the user message is the rendering of that
  template, without the \<open>text to parse\<close> framing.
\<close>

theorem user_framing_counterexample:
  "map_sum id prompt_messages
    (as_prompt example_parse (decorated_subclass Location
        ((default_kwargs clock_a)\<lparr>d_system := Some [Text ''Name the city.''],
           d_user := Some [Text ''Where is '', Out (Var ''text''), Text ''?'']\<rparr>))
     (PStr ''the windy city'') False PNone Map.empty)
   = Inr [\<lparr>role = ''system'', content = ''Name the city.''\<rparr>,
          \<lparr>role = ''user'', content = ''Where is the windy city?''\<rparr>]"
  by (simp add: as_prompt_def parameter_keyword_def AIModel_function_call_def AIModel_functions_def functions_direct_def
      first_def cls_messages_call_def role_template_def AIModel_messages_def render_role_def decorated_subclass_def
      default_kwargs_def system_or_default_def user_or_default_def eval_out_def context_text
      strip_def lstrip_def rstrip_def isspace_def)

text \<open>
  C3 (as amended). Whenever \<open>as_prompt\<close> returns, there are two messages and the content
  of each neither starts nor ends with whitespace. For a class decorated with the built-in
  templates (system template of either mode, built-in user template) and a call that
  passes no \<open>system\<close> and no \<open>user\<close> keyword, no content is empty. Nothing makes the
  content non-empty otherwise.
\<close>

theorem content_trimmed_and_nonempty_by_default:
  assumes "as_prompt parse cls text schema_form instructions extra = Inr p"
  shows "length (prompt_messages p) = 2
       \<and> (\<forall>m \<in> set (prompt_messages p). trimmed (content m))
       \<and> ((\<exists>b m. cls_messages cls = Some b \<and> bound_system b = system_or_default None m
                  \<and> bound_user b = user_prompt)
            \<and> extra ''system'' = None \<and> extra ''user'' = None
            \<longrightarrow> (\<forall>m \<in> set (prompt_messages p). content m \<noteq> []))"
proof -
  let ?ctx = "render_context_of cls (AIModel_functions cls None) text instructions extra"
  from as_prompt_rendered [OF assms]
  obtain st ut rs ru where
    ts: "role_template parse (map_option bound_system (cls_messages cls)) (extra ''system'') = Inr st"
    and tu: "role_template parse (map_option bound_user (cls_messages cls)) (extra ''user'') = Inr ut"
    and rs: "render_role (Some st) ?ctx = Inr rs"
    and ru: "render_role (Some ut) ?ctx = Inr ru"
    and ms: "prompt_messages p = [\<lparr>role = ''system'', content = rs\<rparr>, \<lparr>role = ''user'', content = ru\<rparr>]"
    by blast
  have t: "trimmed rs" "trimmed ru"
    using rs ru by (auto dest: render_role_trimmed)
  have "rs \<noteq> [] \<and> ru \<noteq> []"
    if b: "cls_messages cls = Some b" "bound_system b = system_or_default None m"
      "bound_user b = user_prompt" and e: "extra ''system'' = None" "extra ''user'' = None" for b m
  proof -
    from role_template_cases [OF ts] e(1) b have "st = system_or_default None m" by simp
    moreover from role_template_cases [OF tu] e(2) b have "ut = user_prompt" by simp
    ultimately show ?thesis
      using rs ru by (auto dest: system_prompt_nonempty user_prompt_nonempty)
  qed
  with t ms show ?thesis by auto
qed

theorem content_nonempty_witness:
  "\<exists>p. as_prompt example_parse (decorated_subclass Location (default_kwargs clock_a))
         (PStr ''the windy city'') False PNone Map.empty = Inr p
       \<and> length (prompt_messages p) = 2
       \<and> content (prompt_messages p ! 0) \<noteq> [] \<and> trimmed (content (prompt_messages p ! 0))
       \<and> content (prompt_messages p ! 1) \<noteq> [] \<and> trimmed (content (prompt_messages p ! 1))"
proof -
  obtain p where p: "as_prompt example_parse (decorated_subclass Location (default_kwargs clock_a))
         (PStr ''the windy city'') False PNone Map.empty = Inr p"
    using default_prompt_returns by (rule exE)
  have d: "\<exists>b m. cls_messages (decorated_subclass Location (default_kwargs clock_a)) = Some b
             \<and> bound_system b = system_or_default None m \<and> bound_user b = user_prompt"
  proof (intro exI conjI)
    show "cls_messages (decorated_subclass Location (default_kwargs clock_a)) =
            Some \<lparr>bound_system = system_or_default None Extract, bound_user = user_prompt,
                  bound_context_fn = Some (default_context clock_a), bound_instructions = PNone\<rparr>"
      by (rule default_class_messages)
    show "bound_system \<lparr>bound_system = system_or_default None Extract, bound_user = user_prompt,
                  bound_context_fn = Some (default_context clock_a), bound_instructions = PNone\<rparr>
          = system_or_default None Extract"
      by simp
    show "bound_user \<lparr>bound_system = system_or_default None Extract, bound_user = user_prompt,
                  bound_context_fn = Some (default_context clock_a), bound_instructions = PNone\<rparr>
          = user_prompt"
      by simp
  qed
  note t = content_trimmed_and_nonempty_by_default [OF p]
  have l: "length (prompt_messages p) = 2" by (rule t [THEN conjunct1])
  have tr: "\<forall>m \<in> set (prompt_messages p). trimmed (content m)"
    by (rule t [THEN conjunct2, THEN conjunct1])
  have e: "Map.empty ''system'' = (None :: pyval option) \<and> Map.empty ''user'' = (None :: pyval option)"
    by simp
  have ne: "\<forall>m \<in> set (prompt_messages p). content m \<noteq> []"
    using t [THEN conjunct2, THEN conjunct2] conjI [OF d e] by (rule mp)
  have m0: "prompt_messages p ! 0 \<in> set (prompt_messages p)"
    and m1: "prompt_messages p ! 1 \<in> set (prompt_messages p)"
    using l by simp_all
  from p l ne [rule_format, OF m0] tr [rule_format, OF m0] ne [rule_format, OF m1]
    tr [rule_format, OF m1]
  show ?thesis by (intro exI [of _ p] conjI)
qed

text \<open>
  A plain subclass of \<open>AIModel\<close> has no template under either role: both messages are
  rendered from the empty template and their content is empty.
\<close>

theorem empty_content_counterexample:
  "map_sum id prompt_messages
    (as_prompt example_parse (plain_subclass Location) (PStr ''the windy city'') False PNone Map.empty)
   = Inr [\<lparr>role = ''system'', content = []\<rparr>, \<lparr>role = ''user'', content = []\<rparr>]"
  by (simp add: as_prompt_def parameter_keyword_def AIModel_function_call_def AIModel_functions_def functions_direct_def
      first_def cls_messages_call_def role_template_def AIModel_messages_def render_role_def plain_subclass_def
      strip_def lstrip_def rstrip_def)

text \<open>
  C2 (as amended). In a template whose rendering has reached it, subscripting an undefined
  \<open>functions\<close> or calling an undefined \<open>context_fn\<close> raises \<open>UndefinedError\<close>, and
  \<open>_messages\<close> returns that error and no message, whether the template is the system or
  the user template. Printing or testing an undefined variable raises nothing: the
  template renders as it would without that reference.
\<close>

theorem undefined_variable_rendering:
  assumes "render_nodes ctx pre = Inr s"
  shows "(ctx ''functions'' = None \<longrightarrow>
            AIModel_messages (Some (pre @ Out (FunctionName i) # post)) usr ctx
              = Inl (UndefinedError ''functions''))
       \<and> (ctx ''context_fn'' = None \<longrightarrow>
            AIModel_messages (Some (pre @ ForItems a v body # post)) usr ctx
              = Inl (UndefinedError ''context_fn''))
       \<and> (ctx ''functions'' = None \<and> render_role sys ctx = Inr ss \<longrightarrow>
            AIModel_messages sys (Some (pre @ Out (FunctionName i) # post)) ctx
              = Inl (UndefinedError ''functions''))
       \<and> (ctx x = None \<longrightarrow>
            render_role (Some (pre @ Out (Var x) # post)) ctx = render_role (Some (pre @ post)) ctx
          \<and> render_role (Some (pre @ If x body # post)) ctx = render_role (Some (pre @ post)) ctx)"
proof (intro conjI impI)
  assume f: "ctx ''functions'' = None"
  then have "render_node ctx (Out (FunctionName i)) = Inl (UndefinedError ''functions'')"
    by (simp add: eval_out_def)
  from render_role_error [OF assms this]
  show "AIModel_messages (Some (pre @ Out (FunctionName i) # post)) usr ctx
          = Inl (UndefinedError ''functions'')"
    by (simp add: AIModel_messages_def)
next
  assume "ctx ''context_fn'' = None"
  then have "render_node ctx (ForItems a v body) = Inl (UndefinedError ''context_fn'')"
    by (simp add: eval_items_def)
  from render_role_error [OF assms this]
  show "AIModel_messages (Some (pre @ ForItems a v body # post)) usr ctx
          = Inl (UndefinedError ''context_fn'')"
    by (simp add: AIModel_messages_def)
next
  assume a: "ctx ''functions'' = None \<and> render_role sys ctx = Inr ss"
  then have "render_node ctx (Out (FunctionName i)) = Inl (UndefinedError ''functions'')"
    by (simp add: eval_out_def)
  from render_role_error [OF assms this] a
  show "AIModel_messages sys (Some (pre @ Out (FunctionName i) # post)) ctx
          = Inl (UndefinedError ''functions'')"
    by (simp add: AIModel_messages_def)
next
  assume x: "ctx x = None"
  then have "render_node ctx (Out (Var x)) = Inr []"
    by (simp add: eval_out_def)
  then show "render_role (Some (pre @ Out (Var x) # post)) ctx = render_role (Some (pre @ post)) ctx"
    by (rule render_role_skip)
  from x have "render_node ctx (If x body) = Inr []"
    by (simp add: eval_test_def)
  then show "render_role (Some (pre @ If x body # post)) ctx = render_role (Some (pre @ post)) ctx"
    by (rule render_role_skip)
qed

theorem undefined_variable_rendering_witness:
  "AIModel_messages (Some ([Text ''Call ''] @ Out (FunctionName 0) # [Text ''.'']))
      (Some [Text ''hello'']) (Map.empty :: unit render_context)
     = Inl (UndefinedError ''functions'')
   \<and> AIModel_messages (Some ([Text ''Call ''] @ ForItems ''arg'' ''value'' [] # [Text ''.'']))
      (Some [Text ''hello'']) (Map.empty :: unit render_context)
     = Inl (UndefinedError ''context_fn'')
   \<and> AIModel_messages (Some [Text ''hello''])
      (Some ([Text ''Call ''] @ Out (FunctionName 0) # [Text ''.''])) (Map.empty :: unit render_context)
     = Inl (UndefinedError ''functions'')
   \<and> render_role (Some ([Text ''Call ''] @ Out (Var ''audience'') # [Text ''.''])) (Map.empty :: unit render_context)
     = Inr ''Call .''"
proof -
  have pre: "render_nodes (Map.empty :: unit render_context) [Text ''Call ''] = Inr ''Call ''"
    by simp
  have sys: "render_role (Some [Text ''hello'']) (Map.empty :: unit render_context) = Inr ''hello''"
    by (simp add: render_role_def strip_def lstrip_def rstrip_def isspace_def)
  have r: "render_role (Some ([Text ''Call ''] @ [Text ''.''])) (Map.empty :: unit render_context) = Inr ''Call .''"
    by (simp add: render_role_def strip_def lstrip_def rstrip_def isspace_def)
  note t = undefined_variable_rendering [OF pre, where i = 0 and post = "[Text ''.'']"
      and usr = "Some [Text ''hello'']" and a = "''arg''" and v = "''value''" and body = "[]"
      and sys = "Some [Text ''hello'']" and ss = "''hello''" and x = "''audience''"]
  show ?thesis using t sys r by simp
qed

text \<open>
  A system template that prints the variable \<open>language\<close>, which no keyword binds: the
  messages are returned and the variable has left no trace in the content.
\<close>

theorem undefined_variable_counterexample:
  "render_context_of
     (decorated_subclass Location
        ((default_kwargs clock_a)\<lparr>d_system := Some [Text ''Answer in '', Out (Var ''language''), Text ''.'']\<rparr>))
     (AIModel_functions (decorated_subclass Location
        ((default_kwargs clock_a)\<lparr>d_system := Some [Text ''Answer in '', Out (Var ''language''), Text ''.'']\<rparr>)) None)
     (PStr ''the windy city'') PNone Map.empty ''language'' = None
   \<and> map_sum id prompt_messages
    (as_prompt example_parse (decorated_subclass Location
        ((default_kwargs clock_a)\<lparr>d_system := Some [Text ''Answer in '', Out (Var ''language''), Text ''.'']\<rparr>))
     (PStr ''the windy city'') False PNone Map.empty)
   = Inr [\<lparr>role = ''system'', content = ''Answer in .''\<rparr>,
          \<lparr>role = ''user'', content = ''The text to parse: the windy city''\<rparr>]"
  by (simp add: as_prompt_def parameter_keyword_def AIModel_function_call_def AIModel_functions_def
      functions_direct_def Let_def
      first_def cls_messages_call_def role_template_def AIModel_messages_def render_role_def decorated_subclass_def
      default_kwargs_def system_or_default_def user_or_default_def user_prompt_def nl_def
      eval_out_def render_context_of_def call_keywords_def partial_keywords_def engine_globals_def
      map_add_def strip_def lstrip_def rstrip_def isspace_def)

section \<open>Two renderings\<close>







lemma function_call_value:
  "AIModel_function_call cls schema_form call_kw = Inr ''format_response''"
  by (simp add: AIModel_function_call_def AIModel_functions_def functions_direct_def first_def
      registry_schema_def Function_schema_def from_model_def split: option.splits)











section \<open>Construction\<close>

lemma call_sent_one:
  assumes "call parse backend call_function cls args kwargs = (Inr k, sent)"
  shows "\<exists>p. to_chat_completion parse cls args kwargs = Inr p \<and> sent = [p]"
  using assms by (auto simp: call_def create_def split: sum.splits prod.splits)

text \<open>
  C10. \<open>instructions_\<close> is taken out of the keyword arguments in every case. When the
  first positional argument is truthy and the model call returns the mapping \<open>k\<close>, the
  instance is validated from the remaining keyword arguments updated with \<open>k\<close>, so a value
  of \<open>k\<close> replaces the caller's value for the same field, and exactly one request was
  sent. When the first positional argument is falsy, or there is none, no request is sent
  and the instance is validated from the remaining keyword arguments alone.
\<close>

theorem init_merges_extraction_over_keywords:
  "(truthy a
      \<and> call parse backend call_function cls [a]
            [''instructions'' \<mapsto> (case kwargs ''instructions_'' of None \<Rightarrow> PNone | Some v \<Rightarrow> v)]
          = (Inr k, sent)
     \<longrightarrow> AIModel_init parse backend call_function validate cls (a # rest) kwargs
           = (validate (kwargs(''instructions_'' := None) ++ k), sent)
         \<and> length sent = 1
         \<and> (\<forall>x v. k x = Some v \<longrightarrow> (kwargs(''instructions_'' := None) ++ k) x = Some v))
   \<and> (\<not> truthy a
     \<longrightarrow> AIModel_init parse backend call_function validate cls (a # rest) kwargs
           = (validate (kwargs(''instructions_'' := None)), []))
   \<and> AIModel_init parse backend call_function validate cls [] kwargs
           = (validate (kwargs(''instructions_'' := None)), [])"
proof (intro conjI impI)
  assume a: "truthy a
      \<and> call parse backend call_function cls [a]
            [''instructions'' \<mapsto> (case kwargs ''instructions_'' of None \<Rightarrow> PNone | Some v \<Rightarrow> v)]
          = (Inr k, sent)"
  then show "AIModel_init parse backend call_function validate cls (a # rest) kwargs
           = (validate (kwargs(''instructions_'' := None) ++ k), sent)"
    by (simp add: AIModel_init_def Let_def)
  from a call_sent_one show "length sent = 1" by fastforce
  show "\<forall>x v. k x = Some v \<longrightarrow> (kwargs(''instructions_'' := None) ++ k) x = Some v"
    by (simp add: map_add_def)
next
  assume "\<not> truthy a"
  then show "AIModel_init parse backend call_function validate cls (a # rest) kwargs
           = (validate (kwargs(''instructions_'' := None)), [])"
    by (simp add: AIModel_init_def Let_def)
next
  show "AIModel_init parse backend call_function validate cls [] kwargs
           = (validate (kwargs(''instructions_'' := None)), [])"
    by (simp add: AIModel_init_def Let_def)
qed

section \<open>The batch\<close>

lemma first_raised_Some:
  assumes "first_raised outcomes finish = Some e"
  shows "\<exists>i < length outcomes. outcomes ! i = Inl e"
  using assms by (induction finish) (auto split: if_splits sum.splits)

lemma first_raised_None:
  assumes "first_raised outcomes finish = None" and "i \<in> set finish" and "i < length outcomes"
  shows "\<exists>r. outcomes ! i = Inr r"
  using assms by (induction finish) (auto split: if_splits sum.splits)

lemma returned_all:
  assumes "\<forall>out \<in> set outcomes. \<exists>r. out = Inr r"
  shows "map Inr (returned outcomes) = outcomes"
  using assms by (induction outcomes rule: returned.induct) auto

lemma first_raised_all_returned:
  assumes "\<forall>out \<in> set outcomes. \<exists>r. out = Inr r"
  shows "first_raised outcomes finish = None"
proof (induction finish)
  case Nil
  show ?case by simp
next
  case (Cons i rest)
  have "\<exists>r. outcomes ! i = Inr r" if "i < length outcomes"
    using assms nth_mem [OF that] by blast
  with Cons show ?case by auto
qed

lemma gather_keeps_order:
  assumes "\<forall>out \<in> set outcomes. \<exists>r. out = Inr r"
  shows "\<exists>rs. gather outcomes finish = Inr rs \<and> map Inr rs = outcomes"
  using assms by (simp add: gather_def first_raised_all_returned returned_all)

lemma gather_raises:
  assumes "i < length outcomes" and "outcomes ! i = Inl e" and "i \<in> set finish"
  shows "\<exists>j e'. j < length outcomes \<and> outcomes ! j = Inl e' \<and> gather outcomes finish = Inl e'"
proof (cases "first_raised outcomes finish")
  case None
  from first_raised_None [OF None assms(3,1)] assms(2) show ?thesis by simp
next
  case (Some e')
  from first_raised_Some [OF Some] Some show ?thesis by (auto simp: gather_def)
qed

text \<open>
  C4. When one of the calls of a batch raises and the scheduler lets that task finish,
  \<open>amap\<close> (and so \<open>map\<close>) returns an error and no list of results: the error of a call
  of the batch that raised, namely of the first such task to finish.
\<close>

theorem batch_fails_when_a_call_fails:
  assumes "i < length (amap_calls map_args map_kwargs)"
    and "acall parse backend call_function cls (fst (amap_calls map_args map_kwargs ! i))
           (snd (amap_calls map_args map_kwargs ! i)) = Inl e"
    and "i \<in> set finish"
  shows "\<exists>j e'. j < length (amap_calls map_args map_kwargs)
           \<and> acall parse backend call_function cls (fst (amap_calls map_args map_kwargs ! j))
                (snd (amap_calls map_args map_kwargs ! j)) = Inl e'
           \<and> amap parse backend call_function cls map_args map_kwargs finish = Inl e'
           \<and> AIModel_map parse backend call_function cls map_args map_kwargs finish = Inl e'"
proof -
  let ?calls = "amap_calls map_args map_kwargs"
  let ?outs = "map (\<lambda>(a, kw). acall parse backend call_function cls a kw) ?calls"
  have nth_out: "?outs ! j = acall parse backend call_function cls (fst (?calls ! j)) (snd (?calls ! j))"
    if "j < length ?calls" for j
    using that by (simp add: case_prod_beta)
  have "i < length ?outs" using assms(1) by simp
  moreover have "?outs ! i = Inl e" using nth_out [OF assms(1)] assms(2) by simp
  ultimately obtain j e' where j: "j < length ?outs" "?outs ! j = Inl e'" "gather ?outs finish = Inl e'"
    using gather_raises [OF _ _ assms(3)] by blast
  from j(1) have jl: "j < length ?calls" by simp
  from j(2) nth_out [OF jl] have "acall parse backend call_function cls (fst (?calls ! j)) (snd (?calls ! j)) = Inl e'"
    by simp
  with jl j(3) show ?thesis
    unfolding AIModel_map_def amap_def by blast
qed

lemma first_raised_no_task: "first_raised [] finish = None"
  by (induction finish) simp_all

lemma amap_calls_keywords_only: "amap_calls [] map_kwargs = []"
  by (simp add: amap_calls_def zip_star_def min_length_def)

text \<open>
  C5. With keyword lists only, \<open>zip(*map_args)\<close> is the \<open>zip\<close> of no list, which is empty,
  so the branch for keyword arguments pairs nothing: \<open>amap\<close> builds no call and returns
  the empty list, whatever the backend and the scheduler. The claim asks for one call per
  index and two results here.
\<close>

theorem keyword_only_batch_runs_no_call:
  "amap_calls [] [(''text'', [PStr ''windy city'', PStr ''big apple''])] = []
   \<and> amap parse backend call_function cls [] [(''text'', [PStr ''windy city'', PStr ''big apple''])] finish
       = Inr []
   \<and> AIModel_map parse backend call_function cls [] [(''text'', [PStr ''windy city'', PStr ''big apple''])] finish
       = Inr []"
  by (simp add: AIModel_map_def amap_def amap_calls_keywords_only gather_def first_raised_no_task)

text \<open>
  With one positional list the calls are one per element, and when all of them return the
  results are in the order of the inputs, whatever the order in which the tasks finish.
\<close>

lemma amap_calls_positional:
  "amap_calls [xs] [] = map (\<lambda>x. ([x], Map.empty)) xs"
proof -
  have "map (\<lambda>i. [xs ! i]) [0..<length xs] = map (\<lambda>x. [x]) (map ((!) xs) [0..<length xs])"
    by simp
  also have "\<dots> = map (\<lambda>x. [x]) xs" unfolding map_nth ..
  finally show ?thesis
    by (simp add: amap_calls_def zip_star_def min_length_def comp_def)
qed

lemma amap_positional_order:
  assumes "\<forall>x \<in> set xs. \<exists>r. acall parse backend call_function cls [x] Map.empty = Inr r"
  shows "\<exists>rs. amap parse backend call_function cls [xs] [] finish = Inr rs
           \<and> map Inr rs = map (\<lambda>x. acall parse backend call_function cls [x] Map.empty) xs"
proof -
  let ?outs = "map (\<lambda>x. acall parse backend call_function cls [x] Map.empty) xs"
  have "\<forall>out \<in> set ?outs. \<exists>r. out = Inr r" using assms by auto
  from gather_keeps_order [OF this, of finish] show ?thesis
    by (simp add: amap_def amap_calls_positional comp_def)
qed

section \<open>The examples evaluated\<close>

lemmas city_eval =
  call_def create_def to_chat_completion_def as_prompt_def parameter_keyword_def Let_def
  AIModel_function_call_def AIModel_functions_def functions_direct_def first_def
  cls_messages_call_def role_template_def AIModel_messages_def render_role_def decorated_subclass_def
  city_kwargs_def system_or_default_def user_or_default_def user_prompt_def nl_def
  eval_out_def render_context_of_def call_keywords_def partial_keywords_def engine_globals_def
  map_add_def strip_def lstrip_def rstrip_def isspace_def city_backend_def city_arguments_def

lemma city_call_windy:
  "\<exists>sent. call example_parse city_backend city_arguments (decorated_subclass Location city_kwargs)
      [PStr ''windy city''] [''instructions'' \<mapsto> PNone]
    = (Inr [''city'' \<mapsto> PStr ''Chicago''], sent)"
  by (simp add: city_eval)

lemma city_acall:
  "acall example_parse city_backend city_arguments (decorated_subclass Location city_kwargs)
      [PStr ''windy city''] Map.empty = Inr [''city'' \<mapsto> PStr ''Chicago'']"
  "acall example_parse city_backend city_arguments (decorated_subclass Location city_kwargs)
      [PStr ''gotham''] Map.empty = Inl (Raised ''rate limit'')"
  "acall example_parse city_backend city_arguments (decorated_subclass Location city_kwargs)
      [PStr ''big apple''] Map.empty = Inr [''city'' \<mapsto> PStr ''New York City'']"
  by (simp_all add: acall_def city_eval)

text \<open>
  Templates passed at the call replace the bound ones: a \<open>user\<close> keyword with a variable
  is rendered without the framing, a blank \<open>user\<close> keyword gives an empty user message,
  a \<open>user\<close> keyword that is no string and a keyword named \<open>self\<close> are a \<open>TypeError\<close>.
\<close>

lemma city_call_time_user:
  "map_sum id prompt_messages
     (as_prompt example_parse (decorated_subclass Location city_kwargs) (PStr ''the windy city'')
        False PNone [''user'' \<mapsto> PStr ''Where is {{ text }}?''])
   = Inr [\<lparr>role = ''system'', content = ''Name the city.''\<rparr>,
          \<lparr>role = ''user'', content = ''Where is the windy city?''\<rparr>]"
  "map_sum id prompt_messages
     (as_prompt example_parse (decorated_subclass Location city_kwargs) (PStr ''the windy city'')
        False PNone [''user'' \<mapsto> PStr '' ''])
   = Inr [\<lparr>role = ''system'', content = ''Name the city.''\<rparr>,
          \<lparr>role = ''user'', content = []\<rparr>]"
  "map_sum id prompt_messages
     (as_prompt example_parse (decorated_subclass Location city_kwargs) (PStr ''the windy city'')
        False PNone [''system'' \<mapsto> PStr '' '', ''user'' \<mapsto> PStr ''Where is {{ text }}?''])
   = Inr [\<lparr>role = ''system'', content = []\<rparr>,
          \<lparr>role = ''user'', content = ''Where is the windy city?''\<rparr>]"
  "map_sum id prompt_messages
     (as_prompt example_parse (decorated_subclass Location city_kwargs) (PStr ''the windy city'')
        False PNone [''user'' \<mapsto> PInt 1])
   = Inl (TypeError ''cannot compile non template nodes'')"
  "map_sum id prompt_messages
     (as_prompt example_parse (decorated_subclass Location city_kwargs) (PStr ''the windy city'')
        False PNone [''self'' \<mapsto> PInt 1])
   = Inl (TypeError ''multiple values for argument self'')"
  "map_sum id prompt_messages
     (as_prompt example_parse (decorated_subclass Location city_kwargs) (PStr ''the windy city'')
        False PNone [''cls'' \<mapsto> PInt 1])
   = Inl (TypeError ''multiple values for argument'')"
  by (simp_all add: city_eval example_parse_def)

text \<open>
  A class decorated with the built-in templates, called with a blank \<open>user\<close> keyword:
  the system message is not empty and the user message is.
\<close>

lemma blank_user_on_default_class:
  "\<exists>p. as_prompt example_parse (decorated_subclass Location (default_kwargs clock_a))
          (PStr ''the windy city'') False PNone [''user'' \<mapsto> PStr '' ''] = Inr p
       \<and> map role (prompt_messages p) = [''system'', ''user'']
       \<and> content (prompt_messages p ! 0) \<noteq> []
       \<and> content (prompt_messages p ! 1) = []"
proof -
  let ?cls = "decorated_subclass Location (default_kwargs clock_a)"
  let ?b = "\<lparr>bound_system = system_or_default None Extract, bound_user = user_prompt,
           bound_context_fn = Some (default_context clock_a), bound_instructions = PNone\<rparr>"
  let ?extra = "[''user'' \<mapsto> PStr '' '']"
  let ?fs = "AIModel_functions ?cls None"
  let ?ctx = "render_context_of ?cls ?fs (PStr ''the windy city'') PNone ?extra"
  note m = default_class_messages
  have "\<exists>f. ?fs = [f]"
    by (simp add: AIModel_functions_def functions_direct_def split: option.splits)
  then obtain f where f: "?fs = [f]" by (rule exE)
  obtain i where i: "?ctx ''instructions'' = Some (Scalar i)"
    using context_instructions [OF m] by (rule exE)
  have cf: "?ctx ''context_fn'' = Some (case bound_context_fn ?b of None \<Rightarrow> Scalar PNone | Some f \<Rightarrow> Callable f)"
    by (rule context_context_fn [OF m]) simp
  have g: "\<forall>g. bound_context_fn ?b = Some g \<longrightarrow> (\<exists>kvs. g (PStr ''the windy city'') = Inr kvs)"
    using default_context_returns by simp
  have a1: "?ctx ''functions'' = Some (Registry [f])"
    unfolding context_functions f ..
  have a3: "?ctx ''text'' = Some (Scalar (PStr ''the windy city''))"
    by (rule context_text)
  have "\<exists>r. render_nodes ?ctx (system_or_default None Extract) = Inr r"
    using a1 i a3 cf g by (rule render_system_default)
  then obtain r where r: "render_nodes ?ctx (system_or_default None Extract) = Inr r" by (rule exE)
  then have rr: "render_role (Some (system_or_default None Extract)) ?ctx = Inr (strip r)"
    by (simp add: render_role_def)
  then have ne: "strip r \<noteq> []" by (rule system_prompt_nonempty)
  have c: "AIModel_function_call ?cls False None = Inr ''format_response''"
    by (rule function_call_value)
  have u: "render_role (Some [Text '' '']) ?ctx = Inr []"
    by (simp add: render_role_def strip_def lstrip_def rstrip_def isspace_def)
  have t: "role_template example_parse (map_option bound_system (cls_messages ?cls)) None
            = Inr (system_or_default None Extract)"
    "role_template example_parse (map_option bound_user (cls_messages ?cls)) (Some (PStr '' ''))
            = Inr [Text '' '']"
    unfolding m by (simp_all add: role_template_def example_parse_def)
  have "as_prompt example_parse ?cls (PStr ''the windy city'') False PNone ?extra
      = Inr \<lparr>prompt_functions = Raw ?fs, prompt_function_call = ''format_response'',
             prompt_messages = [\<lparr>role = ''system'', content = strip r\<rparr>,
                                \<lparr>role = ''user'', content = []\<rparr>]\<rparr>"
    using rr u
    by (simp add: as_prompt_def Let_def c cls_messages_call_def t AIModel_messages_def
        parameter_keyword_def)
  with ne show ?thesis by simp
qed

theorem init_merges_extraction_witness:
  "map_sum id (\<lambda>m. (m ''city'', m ''state'', m ''instructions_''))
     (fst (AIModel_init example_parse city_backend city_arguments Inr (decorated_subclass Location city_kwargs)
        [PStr ''windy city'']
        [''city'' \<mapsto> PStr ''Springfield'', ''state'' \<mapsto> PStr ''IL'', ''instructions_'' \<mapsto> PNone]))
     = Inr (Some (PStr ''Chicago''), Some (PStr ''IL''), None)
   \<and> length (snd (AIModel_init example_parse city_backend city_arguments Inr (decorated_subclass Location city_kwargs)
        [PStr ''windy city'']
        [''city'' \<mapsto> PStr ''Springfield'', ''state'' \<mapsto> PStr ''IL'', ''instructions_'' \<mapsto> PNone])) = 1
   \<and> map_sum id (\<lambda>m. (m ''city'', m ''state'', m ''instructions_''))
     (fst (AIModel_init example_parse city_backend city_arguments Inr (decorated_subclass Location city_kwargs)
        [PStr '''']
        [''city'' \<mapsto> PStr ''Springfield'', ''state'' \<mapsto> PStr ''IL'', ''instructions_'' \<mapsto> PNone]))
     = Inr (Some (PStr ''Springfield''), Some (PStr ''IL''), None)
   \<and> snd (AIModel_init example_parse city_backend city_arguments Inr (decorated_subclass Location city_kwargs)
        [PStr '''']
        [''city'' \<mapsto> PStr ''Springfield'', ''state'' \<mapsto> PStr ''IL'', ''instructions_'' \<mapsto> PNone]) = []"
proof -
  let ?kw = "[''city'' \<mapsto> PStr ''Springfield'', ''state'' \<mapsto> PStr ''IL'', ''instructions_'' \<mapsto> PNone]"
  let ?cls = "decorated_subclass Location city_kwargs"
  obtain sent where c: "call example_parse city_backend city_arguments ?cls [PStr ''windy city'']
      [''instructions'' \<mapsto> PNone] = (Inr [''city'' \<mapsto> PStr ''Chicago''], sent)"
    using city_call_windy by (rule exE)
  have i: "(case ?kw ''instructions_'' of None \<Rightarrow> PNone | Some v \<Rightarrow> v) = PNone" by simp
  note t = init_merges_extraction_over_keywords [of "PStr ''windy city''" example_parse city_backend
      city_arguments
      ?cls ?kw "[''city'' \<mapsto> PStr ''Chicago'']" sent Inr "[]"]
  have t1: "AIModel_init example_parse city_backend city_arguments Inr ?cls [PStr ''windy city''] ?kw
           = (Inr (?kw(''instructions_'' := None) ++ [''city'' \<mapsto> PStr ''Chicago'']), sent)
         \<and> length sent = 1
         \<and> (\<forall>x v. [''city'' \<mapsto> PStr ''Chicago''] x = Some v
               \<longrightarrow> (?kw(''instructions_'' := None) ++ [''city'' \<mapsto> PStr ''Chicago'']) x = Some v)"
    using t [THEN conjunct1] c unfolding i by simp
  note u = init_merges_extraction_over_keywords [of "PStr ''''" example_parse city_backend
      city_arguments
      ?cls ?kw "[''city'' \<mapsto> PStr ''Chicago'']" sent Inr "[]"]
  have t2: "AIModel_init example_parse city_backend city_arguments Inr ?cls [PStr ''''] ?kw
           = (Inr (?kw(''instructions_'' := None)), [])"
    using u [THEN conjunct2, THEN conjunct1] by simp
  show ?thesis
    unfolding t1 [THEN conjunct1] t2 using t1 [THEN conjunct2, THEN conjunct1] by simp
qed

theorem batch_fails_witness:
  "1 < length (amap_calls [[PStr ''windy city'', PStr ''gotham'', PStr ''big apple'']] [])
   \<and> acall example_parse city_backend city_arguments (decorated_subclass Location city_kwargs)
        (fst (amap_calls [[PStr ''windy city'', PStr ''gotham'', PStr ''big apple'']] [] ! 1))
        (snd (amap_calls [[PStr ''windy city'', PStr ''gotham'', PStr ''big apple'']] [] ! 1))
       = Inl (Raised ''rate limit'')
   \<and> (1::nat) \<in> set [2, 0, 1]
   \<and> amap example_parse city_backend city_arguments (decorated_subclass Location city_kwargs)
        [[PStr ''windy city'', PStr ''gotham'', PStr ''big apple'']] [] [2, 0, 1]
       = Inl (Raised ''rate limit'')"
proof -
  let ?xs = "[PStr ''windy city'', PStr ''gotham'', PStr ''big apple'']"
  let ?cls = "decorated_subclass Location city_kwargs"
  have l: "1 < length (amap_calls [?xs] [])"
    by (simp add: amap_calls_positional)
  have f: "acall example_parse city_backend city_arguments ?cls (fst (amap_calls [?xs] [] ! 1))
             (snd (amap_calls [?xs] [] ! 1)) = Inl (Raised ''rate limit'')"
    by (simp add: amap_calls_positional city_acall)
  have m: "(1::nat) \<in> set [2, 0, 1]" by simp
  from batch_fails_when_a_call_fails [OF l f m]
  obtain j e' where j: "j < length (amap_calls [?xs] [])"
    and e: "acall example_parse city_backend city_arguments ?cls (fst (amap_calls [?xs] [] ! j))
             (snd (amap_calls [?xs] [] ! j)) = Inl e'"
    and a: "amap example_parse city_backend city_arguments ?cls [?xs] [] [2, 0, 1] = Inl e'"
    by (elim exE conjE)
  from j have "j = 0 \<or> j = 1 \<or> j = 2" by (auto simp: amap_calls_positional)
  with e have "e' = Raised ''rate limit''"
    by (auto simp: amap_calls_positional city_acall)
  with l f m a show ?thesis by simp
qed

end
